theory Spec2Isabelle
  imports Main
begin

section \<open>JavaScript values used by the connection layer\<close>

text \<open>
  Strings are lists of characters. A JavaScript string is falsy exactly when it is empty;
  an optional field is \<open>None\<close> where the source sees \<open>undefined\<close>.
\<close>

definition truthy :: "string option \<Rightarrow> bool" where
  "truthy v = (case v of None \<Rightarrow> False | Some s \<Rightarrow> s \<noteq> [])"

text \<open>\<open>a || b\<close> on optional strings.\<close>

definition string_or :: "string option \<Rightarrow> string \<Rightarrow> string" where
  "string_or a d = (if truthy a then the a else d)"

text \<open>
  Numbers are IEEE doubles. The model keeps the doubles whose value is a whole number
  (\<open>Num n\<close>, which also stands for the two zeros), the two infinities and \<open>NaN\<close>: the numbers
  of the source are times in milliseconds and lifetimes in seconds. A sum, difference or
  product is the nearest double to the exact result, a tie going to the even significand of
  53 bits, and an infinity beyond the largest double.
\<close>

datatype number = Num int | Infinity | MinusInfinity | NaN

text \<open>The number of binary digits of a whole number that is not negative.\<close>

function bit_length :: "int \<Rightarrow> nat" where
  "bit_length n = (if n \<le> 0 then 0 else Suc (bit_length (n div 2)))"
  by pat_completeness auto
termination
  by (relation "measure nat") auto

declare bit_length.simps [simp del]

text \<open>The nearest double to a whole number that is not negative.\<close>

definition round_magnitude :: "int \<Rightarrow> int" where
  "round_magnitude n =
     (if n < 2 ^ 53 then n
      else let e = bit_length n - 53; q = n div 2 ^ e; r = n mod 2 ^ e; half = 2 ^ (e - 1)
           in (if r > half \<or> (r = half \<and> odd q) then q + 1 else q) * 2 ^ e)"

definition round_double :: "int \<Rightarrow> number" where
  "round_double x =
     (let m = round_magnitude \<bar>x\<bar>
      in if m \<ge> 2 ^ 1024 then (if x < 0 then MinusInfinity else Infinity)
         else Num (if x < 0 then - m else m))"


fun js_plus :: "number \<Rightarrow> number \<Rightarrow> number" where
  "js_plus (Num x) (Num y) = round_double (x + y)"
| "js_plus NaN b = NaN"
| "js_plus a NaN = NaN"
| "js_plus Infinity MinusInfinity = NaN"
| "js_plus MinusInfinity Infinity = NaN"
| "js_plus Infinity b = Infinity"
| "js_plus a Infinity = Infinity"
| "js_plus MinusInfinity b = MinusInfinity"
| "js_plus a MinusInfinity = MinusInfinity"


fun js_times :: "number \<Rightarrow> number \<Rightarrow> number" where
  "js_times (Num x) (Num y) = round_double (x * y)"
| "js_times NaN b = NaN"
| "js_times a NaN = NaN"
| "js_times (Num x) b = (if x = 0 then NaN else if (x > 0) = (b = Infinity) then Infinity else MinusInfinity)"
| "js_times a (Num y) = (if y = 0 then NaN else if (y > 0) = (a = Infinity) then Infinity else MinusInfinity)"
| "js_times a b = (if a = b then Infinity else MinusInfinity)"

text \<open>\<open>a > b\<close>: every comparison with \<open>NaN\<close> is false.\<close>

fun js_greater :: "number \<Rightarrow> number \<Rightarrow> bool" where
  "js_greater (Num x) (Num y) = (x > y)"
| "js_greater NaN b = False"
| "js_greater a NaN = False"
| "js_greater Infinity Infinity = False"
| "js_greater Infinity b = True"
| "js_greater a Infinity = False"
| "js_greater MinusInfinity b = False"
| "js_greater a MinusInfinity = True"

text \<open>\<open>n || d\<close> on an optional number: zero, \<open>NaN\<close> and \<open>undefined\<close> are falsy.\<close>

definition num_or :: "number option \<Rightarrow> number \<Rightarrow> number" where
  "num_or v d = (case v of None \<Rightarrow> d | Some n \<Rightarrow> if n = Num 0 \<or> n = NaN then d else n)"

definition or_else :: "string option \<Rightarrow> string option \<Rightarrow> string option" where
  "or_else a b = (if truthy a then a else b)"

text \<open>\<open>`${v}`\<close>: template interpolation of a possibly undefined string.\<close>

definition js_str :: "string option \<Rightarrow> string" where
  "js_str v = (case v of None \<Rightarrow> ''undefined'' | Some s \<Rightarrow> s)"

text \<open>\<open>s.includes(sub)\<close>: \<open>sub\<close> occurs in \<open>s\<close> as a contiguous block.\<close>

fun starts_with :: "string \<Rightarrow> string \<Rightarrow> bool" where
  "starts_with s [] = True"
| "starts_with [] (c # cs) = False"
| "starts_with (d # ds) (c # cs) = (d = c \<and> starts_with ds cs)"

fun str_includes :: "string \<Rightarrow> string \<Rightarrow> bool" where
  "str_includes [] sub = (sub = [])"
| "str_includes (c # cs) sub = (starts_with (c # cs) sub \<or> str_includes cs sub)"

text \<open>
  The white space class \<open>\s\<close> of a regular expression, on the characters below 256:
  tab, line feed, vertical tab, form feed, carriage return, space, no-break space.
\<close>

definition is_space :: "char \<Rightarrow> bool" where
  "is_space c = (c = CHR 0x09 \<or> c = CHR 0x0A \<or> c = CHR 0x0B \<or> c = CHR 0x0C
     \<or> c = CHR 0x0D \<or> c = CHR 0x20 \<or> c = CHR 0xA0)"

text \<open>
  \<open>s.split(/\s+/).filter(Boolean)\<close>: the maximal blocks of non-space characters, in
  order; the empty pieces that \<open>split\<close> produces at the ends are the ones \<open>filter\<close> drops.
  \<open>cur\<close> is the block read so far.
\<close>

fun split_ws :: "string \<Rightarrow> string \<Rightarrow> string list" where
  "split_ws cur [] = (if cur = [] then [] else [cur])"
| "split_ws cur (c # cs) =
     (if is_space c then (if cur = [] then [] else [cur]) @ split_ws [] cs
      else split_ws (cur @ [c]) cs)"

definition split_scopes :: "string \<Rightarrow> string list" where
  "split_scopes s = split_ws [] s"

section \<open>Scope resolution\<close>

text \<open>
  \<open>resolveScopes\<close> of \<open>OAuthHandler\<close> and of \<open>McpManager\<close> (the two bodies are the same).
  The user scope is a string or an array of strings.
\<close>

datatype scope_input = ScopeStr string | ScopeArr "string list"

record scope_sources =
  userScope :: "scope_input option"
  headerScope :: "string option"
  prmScopes :: "string list option"
  asmScopes :: "string list option"
  registrationScopes :: "string list option"

text \<open>\<open>xs?.length\<close> as a condition: the array is there and has an element.\<close>

definition has_length :: "string list option \<Rightarrow> bool" where
  "has_length v = (case v of None \<Rightarrow> False | Some xs \<Rightarrow> xs \<noteq> [])"

text \<open>\<open>if (userScope)\<close>: a string is truthy when non-empty, an array always.\<close>

definition user_truthy :: "scope_input option \<Rightarrow> bool" where
  "user_truthy v = (case v of None \<Rightarrow> False | Some (ScopeStr s) \<Rightarrow> s \<noteq> [] | Some (ScopeArr xs) \<Rightarrow> True)"

definition fallback_scopes :: "string list" where
  "fallback_scopes = [''openid'', ''email'', ''profile'']"

definition resolveScopes :: "scope_sources \<Rightarrow> string list" where
  "resolveScopes inp =
     (if user_truthy (userScope inp) then
        (case the (userScope inp) of ScopeArr xs \<Rightarrow> xs | ScopeStr s \<Rightarrow> split_scopes s)
      else if truthy (headerScope inp) then split_scopes (the (headerScope inp))
      else if has_length (prmScopes inp) then the (prmScopes inp)
      else if has_length (registrationScopes inp) then the (registrationScopes inp)
      else if has_length (asmScopes inp) then the (asmScopes inp)
      else fallback_scopes)"

section \<open>The outside world\<close>

text \<open>
  Every awaited call of the source (\<open>fetch\<close>, \<open>client.connect\<close>, \<open>client.close\<close>,
  \<open>client.callTool\<close>) is answered by the environment. The environment is an arbitrary
  deterministic responder: its answer may depend on the call and on all the calls issued
  before it. The state keeps the list of calls issued so far, so that "no network call",
  "exactly one retry" and "at most two requests" are statements about that list.
\<close>

record js_error =
  message :: string
  err_connectUrl :: "string option"
  cause_code :: "string option"

definition Error :: "string \<Rightarrow> js_error" where
  "Error msg = \<lparr>message = msg, err_connectUrl = None, cause_code = None\<rparr>"

text \<open>The fields that the source reads from parsed JSON bodies.\<close>

record json_obj =
  j_authorization_server :: "string option"
  j_authorization_servers :: "string list option"
  j_scopes_supported :: "string list option"
  j_token_endpoint :: "string option"
  j_authorization_endpoint :: "string option"
  j_registration_endpoint :: "string option"
  j_access_token :: "string option"
  j_token_type :: "string option"
  j_expires_in :: "number option"
  j_refresh_token :: "string option"
  j_scope :: "string option"
  j_client_id :: "string option"
  j_client_secret :: "string option"

definition empty_json :: json_obj where
  "empty_json = \<lparr>j_authorization_server = None, j_authorization_servers = None, j_scopes_supported = None,
     j_token_endpoint = None, j_authorization_endpoint = None, j_registration_endpoint = None,
     j_access_token = None, j_token_type = None, j_expires_in = None, j_refresh_token = None,
     j_scope = None, j_client_id = None, j_client_secret = None\<rparr>"

text \<open>
  What \<open>JSON.parse\<close> and \<open>response.json()\<close> give: the call throws (\<open>NotJson\<close>), or it yields
  \<open>null\<close>, or one of the other falsy values \<open>false\<close>, \<open>0\<close> and the empty string, or a truthy
  value, of which the model keeps the fields that the source reads (a truthy value that is no
  object has none of them). Reading a property of \<open>null\<close> throws; a falsy value other than
  \<open>null\<close> has no property, so each of the fields read from it is \<open>undefined\<close>.
\<close>

datatype 'a json_result = NotJson | JsonNull | JsonFalsy | JsonValue 'a

definition properties :: "json_obj json_result \<Rightarrow> json_obj option" where
  "properties v = (case v of JsonValue j \<Rightarrow> Some j | JsonFalsy \<Rightarrow> Some empty_json | _ \<Rightarrow> None)"

text \<open>\<open>v?.field\<close>: the object whose fields an optional chain reads, if there is one.\<close>

definition optional_chain :: "json_obj json_result \<Rightarrow> json_obj option" where
  "optional_chain v = (case v of JsonValue j \<Rightarrow> Some j | _ \<Rightarrow> None)"

text \<open>
  A response: its status, its \<open>WWW-Authenticate\<close> header, its body as text, and its body
  as \<open>response.json()\<close> reads it.
\<close>

record http_response =
  http_status :: nat
  www_authenticate :: "string option"
  body_text :: string
  json :: "json_obj json_result"

definition ok :: "http_response \<Rightarrow> bool" where
  "ok r = (200 \<le> http_status r \<and> http_status r \<le> 299)"

datatype fetch_result = NetErr js_error | Resp http_response

text \<open>
  Requests. \<open>Get\<close> is \<open>fetch(url)\<close> and \<open>fetch(url, {method: 'GET'})\<close>; \<open>GetJson\<close> adds the
  header \<open>Accept: application/json\<close>; \<open>PostForm url params basic\<close> is a form-encoded POST of
  \<open>params\<close>, with the header \<open>Authorization: Basic base64(id:secret)\<close> when \<open>basic\<close> is
  \<open>Some (id, secret)\<close>; \<open>PostJson\<close> is the registration request, with the scope it asks for.
\<close>

datatype request =
    Get string
  | GetJson string
  | PostForm string "(string \<times> string) list" "(string \<times> string) option"
  | PostJson string string

datatype transport_kind = SSE | StreamableHTTP | StatelessHTTP

record transport =
  kind :: transport_kind
  t_url :: string
  t_headers :: "(string \<times> string) list"

text \<open>A client object is identified by the number of calls issued before its creation.\<close>

datatype client = Client nat

datatype io_call =
    Fetch request
  | ClientConnect client transport
  | ClientClose client
  | ClientCallTool client string string

record tool_result =
  content :: "string list option"
  isError :: "bool option"

record parsed_url =
  origin :: string
  pathname :: string

section \<open>Server descriptors\<close>

record OAuth2Config =
  clientId :: "string option"
  clientSecret :: "string option"
  tokenUrl :: "string option"
  authUrl :: "string option"
  registrationUrl :: "string option"
  scope :: "string option"
  scopes :: "string list option"
  autoDiscover :: "bool option"

text \<open>The object that \<open>JSON.parse(server.config)\<close> yields.\<close>

record server_config =
  url :: "string option"
  headers :: "(string \<times> string) list option"
  oauth2 :: "OAuth2Config option"

record MCPServer =
  sid :: string
  name :: string
  type :: string
  config :: string

text \<open>
  The environment: the clock (\<open>Date.now()\<close>, a whole number of milliseconds), the network,
  the MCP client library, the \<open>URL\<close> constructor (\<open>None\<close> where it throws), \<open>JSON.parse\<close> and
  \<open>JSON.stringify\<close> on server configurations, the application URL of the environment
  configuration, and \<open>encodeURIComponent\<close>.
\<close>

record env =
  clock :: "io_call list \<Rightarrow> int"
  net :: "io_call list \<Rightarrow> request \<Rightarrow> fetch_result"
  mcp_connect :: "io_call list \<Rightarrow> transport \<Rightarrow> js_error option"
  mcp_close :: "io_call list \<Rightarrow> client \<Rightarrow> js_error option"
  mcp_callTool :: "io_call list \<Rightarrow> client \<Rightarrow> string \<Rightarrow> string \<Rightarrow> js_error + tool_result"
  new_URL :: "string \<Rightarrow> parsed_url option"
  new_URL_base :: "string \<Rightarrow> string \<Rightarrow> string option"
  JSON_parse :: "string \<Rightarrow> server_config json_result"
  JSON_stringify_config :: "server_config \<Rightarrow> string"
  appUrl :: string
  encodeURIComponent :: "string \<Rightarrow> string"

section \<open>Token vault (\<open>OAuthHandler\<close>)\<close>

record token_data =
  access_token :: "string option"
  token_type :: "string option"
  expires_in :: "number option"
  refresh_token :: "string option"
  granted_scope :: "string option"

record OAuth2Token =
  tok_access_token :: "string option"
  tok_token_type :: string
  tok_expires_in :: number
  expires_at :: number
  tok_refresh_token :: "string option"

datatype ConnectionStatus = connecting | connected | error | disconnected | auth_required

record MCPConnection =
  client :: "client option"
  server :: MCPServer
  status :: ConnectionStatus
  conn_error :: "string option"
  connectUrl :: "string option"

record state =
  oauth2Tokens :: "string \<rightharpoonup> OAuth2Token"
  connections :: "string \<rightharpoonup> MCPConnection"
  io_log :: "io_call list"

definition Date_now :: "env \<Rightarrow> state \<Rightarrow> int" where
  "Date_now e s = clock e (io_log s)"

definition fetch :: "env \<Rightarrow> request \<Rightarrow> state \<Rightarrow> fetch_result \<times> state" where
  "fetch e r s = (net e (io_log s) r, s\<lparr>io_log := io_log s @ [Fetch r]\<rparr>)"

definition token_fields :: "json_obj \<Rightarrow> token_data" where
  "token_fields j = \<lparr>access_token = j_access_token j, token_type = j_token_type j,
     expires_in = j_expires_in j, refresh_token = j_refresh_token j, granted_scope = j_scope j\<rparr>"

text \<open>\<open>setOAuth2Token\<close> (the same body in \<open>OAuthHandler\<close> and in \<open>McpManager\<close>); times are in milliseconds.\<close>

definition setOAuth2Token :: "env \<Rightarrow> string \<Rightarrow> token_data \<Rightarrow> state \<Rightarrow> state" where
  "setOAuth2Token e serverId tokenData s =
     (let now = Num (Date_now e s);
          token = \<lparr>tok_access_token = access_token tokenData,
                   tok_token_type = string_or (token_type tokenData) ''Bearer'',
                   tok_expires_in = num_or (expires_in tokenData) (Num 3600),
                   expires_at = js_plus now (js_times (num_or (expires_in tokenData) (Num 3600)) (Num 1000)),
                   tok_refresh_token = refresh_token tokenData\<rparr>
      in s\<lparr>oauth2Tokens := (oauth2Tokens s)(serverId \<mapsto> token)\<rparr>)"

definition getOAuth2TokenData :: "state \<Rightarrow> string \<Rightarrow> OAuth2Token option" where
  "getOAuth2TokenData s serverId = oauth2Tokens s serverId"

definition clearOAuth2Token :: "string \<Rightarrow> state \<Rightarrow> state" where
  "clearOAuth2Token serverId s = s\<lparr>oauth2Tokens := (oauth2Tokens s)(serverId := None)\<rparr>"

text \<open>Decimal digits of a number, as \<open>`${response.status}`\<close> prints it.\<close>

fun show_nat :: "nat \<Rightarrow> string" where
  "show_nat n = (if n < 10 then [char_of (48 + n)]
                 else show_nat (n div 10) @ [char_of (48 + n mod 10)])"

declare show_nat.simps [simp del]

definition getRedirectUri :: "env \<Rightarrow> string" where
  "getRedirectUri e = appUrl e @ ''/api/mcp/oauth-callback''"

text \<open>
  The tail of \<open>refreshToken\<close>, from the second \<open>if (!response.ok)\<close> on: the response that is
  left after the retry logic is either rejected or turned into a token set, in which the old
  refresh token stands in for a missing new one.
\<close>

definition refresh_result :: "http_response \<Rightarrow> string \<Rightarrow> js_error + token_data" where
  "refresh_result response refreshTok =
     (if \<not> ok response then
        Inl (Error (''Token refresh failed: '' @ show_nat (http_status response) @ '' '' @ body_text response))
      else case properties (json response) of
        None \<Rightarrow> Inl (Error (if json response = JsonNull then ''Cannot read properties of null''
                               else ''Unexpected token in JSON''))
      | Some tokenData \<Rightarrow>
          Inr \<lparr>access_token = j_access_token tokenData,
               token_type = Some (string_or (j_token_type tokenData) ''Bearer''),
               expires_in = Some (num_or (j_expires_in tokenData) (Num 3600)),
               refresh_token = or_else (j_refresh_token tokenData) (Some refreshTok),
               granted_scope = j_scope tokenData\<rparr>)"

definition refresh_params :: "string \<Rightarrow> OAuth2Config \<Rightarrow> (string \<times> string) list" where
  "refresh_params refreshTok oauth2Config =
     [(''grant_type'', ''refresh_token''), (''refresh_token'', refreshTok),
      (''client_id'', js_str (clientId oauth2Config))]"

text \<open>\<open>OAuthHandler.refreshToken\<close>.\<close>

definition refreshToken :: "env \<Rightarrow> string \<Rightarrow> OAuth2Config \<Rightarrow> state \<Rightarrow> (js_error + token_data) \<times> state" where
  "refreshToken e refreshTok oauth2Config s =
     (if \<not> truthy (tokenUrl oauth2Config) then (Inl (Error ''OAuth token URL not configured''), s)
      else
        let params = refresh_params refreshTok oauth2Config;
            basic = (if truthy (clientSecret oauth2Config)
                     then Some (js_str (clientId oauth2Config), the (clientSecret oauth2Config))
                     else None);
            (r1, s1) = fetch e (PostForm (the (tokenUrl oauth2Config)) params basic) s
        in case r1 of
             NetErr err \<Rightarrow> (Inl err, s1)
           | Resp response \<Rightarrow>
               if \<not> ok response \<and> truthy (clientSecret oauth2Config) then
                 (if http_status response = 401 \<or> str_includes (body_text response) ''invalid_client'' then
                    let (r2, s2) = fetch e (PostForm (the (tokenUrl oauth2Config))
                                     (params @ [(''client_secret'', the (clientSecret oauth2Config))]) None) s1
                    in case r2 of
                         NetErr err \<Rightarrow> (Inl err, s2)
                       | Resp response2 \<Rightarrow> (refresh_result response2 refreshTok, s2)
                  else (Inl (Error (''Token refresh failed: '' @ show_nat (http_status response)
                                     @ '' '' @ body_text response)), s1))
               else (refresh_result response refreshTok, s1))"

text \<open>The error that \<open>getOAuth2TokenHeader\<close> throws when no usable credential is left.\<close>

definition join_space :: "string list \<Rightarrow> string" where
  "join_space xs = (case xs of [] \<Rightarrow> [] | y # ys \<Rightarrow> foldl (\<lambda>acc x. acc @ '' '' @ x) y ys)"

definition auth_required_error :: "env \<Rightarrow> OAuth2Config \<Rightarrow> js_error" where
  "auth_required_error e oauth2Config =
     (let authMessage = ''OAuth2 token expired or missing. Please authorize the MCP server.''
      in if truthy (authUrl oauth2Config) \<and> truthy (clientId oauth2Config) then
           let redirectUri = getRedirectUri e;
               scope' = (if truthy (scope oauth2Config) then the (scope oauth2Config)
                         else case scopes oauth2Config of
                                Some xs \<Rightarrow> join_space xs
                              | None \<Rightarrow> ''openid profile offline_access'');
               connectUrl' = the (authUrl oauth2Config) @ ''?response_type=code&client_id=''
                              @ the (clientId oauth2Config) @ ''&redirect_uri=''
                              @ encodeURIComponent e redirectUri @ ''&scope=''
                              @ encodeURIComponent e scope'
           in \<lparr>message = ''ACTION REQUIRED: '' @ authMessage @ '' Connect URL: '' @ connectUrl',
               err_connectUrl = (if connectUrl' \<noteq> [] then Some connectUrl' else None),
               cause_code = None\<rparr>
         else Error authMessage)"

text \<open>\<open>cached.expires_at > now + 60000\<close>: the cached token is valid for another minute.\<close>

definition still_valid :: "env \<Rightarrow> state \<Rightarrow> OAuth2Token \<Rightarrow> bool" where
  "still_valid e s tok = js_greater (expires_at tok) (js_plus (Num (Date_now e s)) (Num 60000))"

text \<open>\<open>OAuthHandler.getOAuth2TokenHeader\<close>.\<close>

definition getOAuth2TokenHeader :: "env \<Rightarrow> string \<Rightarrow> OAuth2Config \<Rightarrow> state \<Rightarrow> (js_error + string) \<times> state" where
  "getOAuth2TokenHeader e serverId oauth2Config s =
     (let cached = oauth2Tokens s serverId
      in case cached of
           None \<Rightarrow> (Inl (auth_required_error e oauth2Config), s)
         | Some tok \<Rightarrow>
             if still_valid e s tok then
               (Inr (tok_token_type tok @ '' '' @ js_str (tok_access_token tok)), s)
             else if truthy (tok_refresh_token tok) \<and> truthy (tokenUrl oauth2Config) then
               (case refreshToken e (the (tok_refresh_token tok)) oauth2Config s of
                  (Inr tokenData, s1) \<Rightarrow>
                    (Inr (string_or (token_type tokenData) ''Bearer'' @ '' '' @ js_str (access_token tokenData)),
                     setOAuth2Token e serverId tokenData s1)
                | (Inl err, s1) \<Rightarrow> (Inl (auth_required_error e oauth2Config), s1))
             else (Inl (auth_required_error e oauth2Config), s))"

text \<open>
  \<open>McpManager.getOAuth2TokenHeader\<close>: the refresh is written inline, a refusal of the first
  request that is not a client-authentication failure is not thrown but falls to the final
  check, and the raw response is what \<open>setOAuth2Token\<close> receives. Every exception of the
  refresh, also the one of \<open>setOAuth2Token\<close> on a body that is \<open>null\<close>, is caught.
\<close>

definition Mm_getOAuth2TokenHeader :: "env \<Rightarrow> string \<Rightarrow> OAuth2Config \<Rightarrow> state \<Rightarrow> (js_error + string) \<times> state" where
  "Mm_getOAuth2TokenHeader e serverId oauth2Config s =
     (let cached = oauth2Tokens s serverId
      in case cached of
           None \<Rightarrow> (Inl (auth_required_error e oauth2Config), s)
         | Some tok \<Rightarrow>
             if still_valid e s tok then
               (Inr (tok_token_type tok @ '' '' @ js_str (tok_access_token tok)), s)
             else if truthy (tok_refresh_token tok) \<and> truthy (tokenUrl oauth2Config) then
               (let params = refresh_params (the (tok_refresh_token tok)) oauth2Config;
                    basic = (if truthy (clientSecret oauth2Config)
                             then Some (js_str (clientId oauth2Config), the (clientSecret oauth2Config))
                             else None);
                    (r1, s1) = fetch e (PostForm (the (tokenUrl oauth2Config)) params basic) s;
                    (r, s2) = (case r1 of
                                 NetErr err \<Rightarrow> (r1, s1)
                               | Resp response \<Rightarrow>
                                   if \<not> ok response \<and> truthy (clientSecret oauth2Config)
                                      \<and> (http_status response = 401
                                           \<or> str_includes (body_text response) ''invalid_client'')
                                   then fetch e (PostForm (the (tokenUrl oauth2Config))
                                          (params @ [(''client_secret'', the (clientSecret oauth2Config))]) None) s1
                                   else (r1, s1))
                in case r of
                     NetErr err \<Rightarrow> (Inl (auth_required_error e oauth2Config), s2)
                   | Resp response \<Rightarrow>
                       if ok response then
                         (case properties (json response) of
                            None \<Rightarrow> (Inl (auth_required_error e oauth2Config), s2)
                          | Some tokenData \<Rightarrow>
                              (Inr (string_or (j_token_type tokenData) ''Bearer'' @ '' ''
                                      @ js_str (j_access_token tokenData)),
                               setOAuth2Token e serverId (token_fields tokenData) s2))
                       else (Inl (auth_required_error e oauth2Config), s2))
             else (Inl (auth_required_error e oauth2Config), s))"

section \<open>State codec (\<open>oauth-pkce\<close>)\<close>


definition b64_alphabet :: string where
  "b64_alphabet = ''ABCDEFGHIJKLMNOPQRSTUVWXYZabcdefghijklmnopqrstuvwxyz0123456789+/''"

definition b64_char :: "nat \<Rightarrow> char" where
  "b64_char n = b64_alphabet ! (n mod 64)"


text \<open>
  What the module takes from Node: the key derived from the secret, AES-256-GCM (sealing
  gives the ciphertext and the authentication tag; opening gives the plaintext, or \<open>None\<close>
  where \<open>createDecipheriv\<close>, \<open>setAuthTag\<close> or \<open>final\<close> throws), \<open>JSON.stringify\<close> and
  \<open>JSON.parse\<close> on the state object (\<open>None\<close> where \<open>JSON.parse\<close> throws or yields \<open>null\<close>,
  of which reading \<open>createdAt\<close> throws), the UTF-8 encoding of a string and the decoding of
  bytes as UTF-8, and \<open>Buffer.from(s, 'base64')\<close>, which never throws. In the parsed state
  every field may be missing, and \<open>createdAt\<close> is whatever number the text holds.
\<close>

record PKCEStateData =
  verifier :: string
  serverId :: string
  nonce :: string
  createdAt :: int











section \<open>Discovery\<close>

subsection \<open>The \<open>WWW-Authenticate\<close> hints\<close>

text \<open>
  \<open>/key="([^"]+)"/i.exec(s)\<close>: the first place where \<open>key="\<close> stands, compared without
  regard to the case of ASCII letters, followed by at least one character other than the
  double quote and then a double quote; the value is what stands between the quotes.
\<close>

definition lower :: "char \<Rightarrow> char" where
  "lower c = (if 65 \<le> (of_char c :: nat) \<and> (of_char c :: nat) \<le> 90
              then char_of ((of_char c :: nat) + 32) else c)"

fun starts_with_ci :: "string \<Rightarrow> string \<Rightarrow> bool" where
  "starts_with_ci s [] = True"
| "starts_with_ci [] (c # cs) = False"
| "starts_with_ci (d # ds) (c # cs) = (lower d = lower c \<and> starts_with_ci ds cs)"

definition quoted_value :: "string \<Rightarrow> string option" where
  "quoted_value s =
     (let v = takeWhile (\<lambda>c. c \<noteq> CHR 0x22) s;
          rest = dropWhile (\<lambda>c. c \<noteq> CHR 0x22) s
      in if v \<noteq> [] \<and> rest \<noteq> [] then Some v else None)"

fun rx_param :: "string \<Rightarrow> string \<Rightarrow> string option" where
  "rx_param key [] = None"
| "rx_param key (c # cs) =
     (if starts_with_ci (c # cs) (key @ [CHR ''='', CHR 0x22]) then
        (case quoted_value (drop (length key + 2) (c # cs)) of
           Some v \<Rightarrow> Some v
         | None \<Rightarrow> rx_param key cs)
      else rx_param key cs)"

subsection \<open>\<open>discoverOAuthConfiguration\<close>\<close>

record OAuthDiscoveryResult =
  d_prm :: json_obj
  d_tokenUrl :: "string option"
  d_authUrl :: "string option"
  d_registrationUrl :: "string option"
  d_scopes :: "string list"
  d_headerScope :: "string option"
  requiresAuth :: bool

text \<open>
  The loop over the candidate URLs of the Protected Resource Metadata, together with the
  test \<open>if (!prm) return null\<close> that follows it: a failed fetch, a response that is not ok
  and a body that is not JSON all pass to the next candidate; the first body that parses ends
  the loop, and it is the metadata unless it is falsy.
\<close>

fun fetch_prm :: "env \<Rightarrow> string list \<Rightarrow> state \<Rightarrow> json_obj option \<times> state" where
  "fetch_prm e [] s = (None, s)"
| "fetch_prm e (candidate # rest) s =
     (case fetch e (Get candidate) s of
        (NetErr err, s1) \<Rightarrow> fetch_prm e rest s1
      | (Resp res, s1) \<Rightarrow>
          if \<not> ok res then fetch_prm e rest s1
          else (case json res of
                  NotJson \<Rightarrow> fetch_prm e rest s1
                | JsonNull \<Rightarrow> (None, s1)
                | JsonFalsy \<Rightarrow> (None, s1)
                | JsonValue prm \<Rightarrow> (Some prm, s1)))"

text \<open>The candidate URLs, the one of the \<open>WWW-Authenticate\<close> header first when there is one.\<close>

definition candidateUrls :: "parsed_url \<Rightarrow> string option \<Rightarrow> string list" where
  "candidateUrls u resourceMetadataUrl =
     (let rootUrl = origin u;
          pathname' = (if pathname u = ''/'' then [] else pathname u)
      in (if truthy resourceMetadataUrl then [the resourceMetadataUrl] else [])
         @ [rootUrl @ ''/.well-known/oauth-protected-resource'' @ pathname',
            rootUrl @ ''/.well-known/oauth-protected-resource''])"

text \<open>\<open>prm.authorization_server || (prm.authorization_servers && prm.authorization_servers[0])\<close>.\<close>

definition prm_authServer :: "json_obj \<Rightarrow> string option" where
  "prm_authServer prm =
     (if truthy (j_authorization_server prm) then j_authorization_server prm
      else case j_authorization_servers prm of
             Some (a # rest) \<Rightarrow> (if a \<noteq> [] then Some a else None)
           | _ \<Rightarrow> None)"

text \<open>
  Steps 2 and 3 of \<open>discoverOAuthConfiguration\<close>, after the probe. An authorization server
  that is no URL makes \<open>new URL\<close> throw inside the outer \<open>try\<close>, which gives \<open>null\<close>.
\<close>

definition discover_metadata ::
  "env \<Rightarrow> parsed_url \<Rightarrow> string option \<Rightarrow> string option \<Rightarrow> bool \<Rightarrow> state
     \<Rightarrow> OAuthDiscoveryResult option \<times> state" where
  "discover_metadata e u resourceMetadataUrl headerScope' probeRequiresAuth s =
     (let (prm', s1) = fetch_prm e (candidateUrls u resourceMetadataUrl) s
      in case prm' of
           None \<Rightarrow> (None, s1)
         | Some prm \<Rightarrow>
             (case prm_authServer prm of
                None \<Rightarrow>
                  (Some \<lparr>d_prm = prm, d_tokenUrl = None, d_authUrl = None, d_registrationUrl = None,
                         d_scopes = resolveScopes \<lparr>userScope = None, headerScope = headerScope',
                            prmScopes = j_scopes_supported prm, asmScopes = None,
                            registrationScopes = None\<rparr>,
                         d_headerScope = headerScope', requiresAuth = probeRequiresAuth\<rparr>, s1)
              | Some authServer \<Rightarrow>
                  (case new_URL_base e ''/.well-known/oauth-authorization-server'' authServer of
                     None \<Rightarrow> (None, s1)
                   | Some asmUrl \<Rightarrow>
                       let (authRes, s2) = fetch e (Get asmUrl) s1;
                           authMeta = (case authRes of
                                         NetErr err \<Rightarrow> None
                                       | Resp r \<Rightarrow> if ok r then optional_chain (json r) else None)
                       in (Some \<lparr>d_prm = prm,
                                 d_tokenUrl = (case authMeta of None \<Rightarrow> None | Some m \<Rightarrow> j_token_endpoint m),
                                 d_authUrl = (case authMeta of None \<Rightarrow> None | Some m \<Rightarrow> j_authorization_endpoint m),
                                 d_registrationUrl = (case authMeta of None \<Rightarrow> None | Some m \<Rightarrow> j_registration_endpoint m),
                                 d_scopes = resolveScopes \<lparr>userScope = None, headerScope = headerScope',
                                    prmScopes = j_scopes_supported prm,
                                    asmScopes = (case authMeta of None \<Rightarrow> None | Some m \<Rightarrow> j_scopes_supported m),
                                    registrationScopes = None\<rparr>,
                                 d_headerScope = headerScope', requiresAuth = probeRequiresAuth\<rparr>, s2))))"

text \<open>
  \<open>OAuthHandler.discoverOAuthConfiguration\<close>. \<open>new URL(serverUrl)\<close> stands before the \<open>try\<close>,
  so a string that is no URL is the one input on which the function throws. \<open>network_codes\<close>
  says whether the probe's \<open>catch\<close> gives up on the three network error codes, as
  \<open>OAuthHandler\<close> does; \<open>McpManager\<close> always continues.
\<close>

definition is_network_error :: "js_error \<Rightarrow> bool" where
  "is_network_error err = (cause_code err = Some ''ENOTFOUND'' \<or> cause_code err = Some ''ECONNREFUSED''
     \<or> cause_code err = Some ''ETIMEDOUT'')"

definition discover_with ::
  "bool \<Rightarrow> env \<Rightarrow> string \<Rightarrow> state \<Rightarrow> (js_error + OAuthDiscoveryResult option) \<times> state" where
  "discover_with network_codes e serverUrl s =
     (case new_URL e serverUrl of
        None \<Rightarrow> (Inl (Error ''Invalid URL''), s)
      | Some u \<Rightarrow>
          (case fetch e (Get serverUrl) s of
             (NetErr probeError, s1) \<Rightarrow>
               if network_codes \<and> is_network_error probeError then (Inr None, s1)
               else (case discover_metadata e u None None False s1 of (r, s2) \<Rightarrow> (Inr r, s2))
           | (Resp probe, s1) \<Rightarrow>
               if http_status probe = 401 then
                 (let wwwAuth = www_authenticate probe;
                      metaMatch = (if truthy wwwAuth then rx_param ''resource_metadata'' (the wwwAuth) else None);
                      scopeMatch = (if truthy wwwAuth then rx_param ''scope'' (the wwwAuth) else None)
                  in case discover_metadata e u metaMatch scopeMatch True s1 of (r, s2) \<Rightarrow> (Inr r, s2))
               else if ok probe then (Inr None, s1)
               else (case discover_metadata e u None None False s1 of (r, s2) \<Rightarrow> (Inr r, s2))))"

definition discoverOAuthConfiguration ::
  "env \<Rightarrow> string \<Rightarrow> state \<Rightarrow> (js_error + OAuthDiscoveryResult option) \<times> state" where
  "discoverOAuthConfiguration = discover_with True"

definition Mm_discoverOAuthConfiguration ::
  "env \<Rightarrow> string \<Rightarrow> state \<Rightarrow> (js_error + OAuthDiscoveryResult option) \<times> state" where
  "Mm_discoverOAuthConfiguration = discover_with False"

subsection \<open>\<open>discoverOAuthWithMultipleMethods\<close> (the discovery endpoint)\<close>











section \<open>Client registration\<close>

record ClientCredentials =
  cc_clientId :: "string option"
  cc_clientSecret :: "string option"
  cc_scope :: "string option"

text \<open>\<open>OAuthHandler.registerDynamicClient\<close>: every failure gives \<open>null\<close>.\<close>

definition registerDynamicClient ::
  "env \<Rightarrow> string \<Rightarrow> string list \<Rightarrow> state \<Rightarrow> ClientCredentials option \<times> state" where
  "registerDynamicClient e registrationUrl' scopes' s =
     (let scope' = (if join_space scopes' \<noteq> [] then join_space scopes'
                    else ''openid profile email offline_access'')
      in case fetch e (PostJson registrationUrl' scope') s of
           (NetErr err, s1) \<Rightarrow> (None, s1)
         | (Resp response, s1) \<Rightarrow>
             if ok response then
               (case properties (json response) of
                  None \<Rightarrow> (None, s1)
                | Some clientData \<Rightarrow>
                    (Some \<lparr>cc_clientId = j_client_id clientData,
                           cc_clientSecret = j_client_secret clientData,
                           cc_scope = j_scope clientData\<rparr>, s1))
             else (None, s1))"

section \<open>Connection registry (\<open>ConnectionManager\<close>)\<close>

definition client_connect :: "env \<Rightarrow> client \<Rightarrow> transport \<Rightarrow> state \<Rightarrow> js_error option \<times> state" where
  "client_connect e c t s = (mcp_connect e (io_log s) t, s\<lparr>io_log := io_log s @ [ClientConnect c t]\<rparr>)"

definition client_close :: "env \<Rightarrow> client \<Rightarrow> state \<Rightarrow> js_error option \<times> state" where
  "client_close e c s = (mcp_close e (io_log s) c, s\<lparr>io_log := io_log s @ [ClientClose c]\<rparr>)"

definition client_callTool ::
  "env \<Rightarrow> client \<Rightarrow> string \<Rightarrow> string \<Rightarrow> state \<Rightarrow> (js_error + tool_result) \<times> state" where
  "client_callTool e c toolName args s =
     (mcp_callTool e (io_log s) c toolName args, s\<lparr>io_log := io_log s @ [ClientCallTool c toolName args]\<rparr>)"

definition registerConnectionState ::
  "MCPServer \<Rightarrow> ConnectionStatus \<Rightarrow> string option \<Rightarrow> string option \<Rightarrow> state \<Rightarrow> state" where
  "registerConnectionState server' status' error' connectUrl' s =
     (case connections s (sid server') of
        Some existing \<Rightarrow>
          s\<lparr>connections := (connections s)(sid server' \<mapsto>
               existing\<lparr>status := status', conn_error := error', connectUrl := connectUrl'\<rparr>)\<rparr>
      | None \<Rightarrow>
          s\<lparr>connections := (connections s)(sid server' \<mapsto>
               \<lparr>client = None, server = server', status = status', conn_error = error',
                connectUrl = connectUrl'\<rparr>)\<rparr>)"

definition establishConnection ::
  "env \<Rightarrow> MCPServer \<Rightarrow> transport \<Rightarrow> state \<Rightarrow> (js_error + MCPConnection) \<times> state" where
  "establishConnection e server' transport' s =
     (let existing = connections s (sid server')
      in if (case existing of Some c \<Rightarrow> status c = connected | None \<Rightarrow> False) then (Inr (the existing), s)
         else
           (let client' = Client (length (io_log s));
                connection = \<lparr>client = Some client', server = server', status = connecting,
                              conn_error = None, connectUrl = None\<rparr>;
                s1 = s\<lparr>connections := (connections s)(sid server' \<mapsto> connection)\<rparr>
            in case client_connect e client' transport' s1 of
                 (None, s2) \<Rightarrow>
                   (Inr (connection\<lparr>status := connected\<rparr>),
                    s2\<lparr>connections := (connections s2)(sid server' \<mapsto> connection\<lparr>status := connected\<rparr>)\<rparr>)
               | (Some err, s2) \<Rightarrow>
                   (Inl err,
                    s2\<lparr>connections := (connections s2)(sid server' \<mapsto>
                         connection\<lparr>status := error, conn_error := Some (message err)\<rparr>)\<rparr>)))"

text \<open>\<open>closeConnection\<close>: an error of \<open>client.close()\<close> is caught and logged, nothing more.\<close>

definition closeConnection :: "env \<Rightarrow> string \<Rightarrow> state \<Rightarrow> state" where
  "closeConnection e serverId' s =
     (let s1 = (case connections s serverId' of
                  None \<Rightarrow> s
                | Some connection \<Rightarrow>
                    (case client connection of
                       None \<Rightarrow> s
                     | Some c \<Rightarrow> (case client_close e c s of (None, s') \<Rightarrow> s' | (Some err, s') \<Rightarrow> s')))
      in s1\<lparr>connections := (connections s1)(serverId' := None)\<rparr>)"

definition getConnectionStatus :: "state \<Rightarrow> string \<Rightarrow> ConnectionStatus" where
  "getConnectionStatus s serverId' =
     (case connections s serverId' of Some connection \<Rightarrow> status connection | None \<Rightarrow> disconnected)"

record MCPToolResult =
  r_content :: "string list"
  r_isError :: bool

text \<open>\<open>ConnectionManager.callTool\<close>.\<close>

definition callTool ::
  "env \<Rightarrow> string \<Rightarrow> string \<Rightarrow> string \<Rightarrow> state \<Rightarrow> (js_error + MCPToolResult) \<times> state" where
  "callTool e toolName args serverId' s =
     (case connections s serverId' of
        None \<Rightarrow> (Inl (Error (''Server '' @ serverId' @ '' is not connected or client is missing.'')), s)
      | Some connection \<Rightarrow>
          if status connection \<noteq> connected \<or> client connection = None then
            (Inl (Error (''Server '' @ serverId' @ '' is not connected or client is missing.'')), s)
          else
            (case client_callTool e (the (client connection)) toolName args s of
               (Inl err, s1) \<Rightarrow> (Inl err, s1)
             | (Inr result, s1) \<Rightarrow>
                 (Inr \<lparr>r_content = (case content result of Some xs \<Rightarrow> xs | None \<Rightarrow> []),
                       r_isError = (case isError result of Some b \<Rightarrow> b | None \<Rightarrow> False)\<rparr>, s1)))"

text \<open>
  \<open>McpManager.callTool\<close>; its \<open>serverId\<close> parameter is optional. A record that is
  \<open>connected\<close> without a client makes \<open>targetConnection.client.callTool\<close> a type error, which
  the \<open>catch\<close> rethrows.
\<close>

definition Mm_callTool ::
  "env \<Rightarrow> string \<Rightarrow> string \<Rightarrow> string option \<Rightarrow> state \<Rightarrow> (js_error + tool_result) \<times> state" where
  "Mm_callTool e toolName args serverId' s =
     (if \<not> truthy serverId' then (Inl (Error ''ServerId is required to call a tool.''), s)
      else
        (case connections s (the serverId') of
           None \<Rightarrow> (Inl (Error (''Server '' @ the serverId' @ '' is not connected.'')), s)
         | Some targetConnection \<Rightarrow>
             if status targetConnection \<noteq> connected then
               (Inl (Error (''Server '' @ the serverId' @ '' is not connected.'')), s)
             else
               (case client targetConnection of
                  None \<Rightarrow> (Inl (Error ''Cannot read properties of null (reading callTool)''), s)
                | Some c \<Rightarrow> client_callTool e c toolName args s)))"

section \<open>Transports (\<open>TransportManager\<close>)\<close>

text \<open>\<open>createTransport\<close> and \<open>createStatelessHTTPTransport\<close>; \<open>new URL(url)\<close> may throw.\<close>

definition createTransport ::
  "env \<Rightarrow> string \<Rightarrow> string \<Rightarrow> (string \<times> string) list \<Rightarrow> js_error + transport" where
  "createTransport e serverType url' headers' =
     (case new_URL e url' of
        None \<Rightarrow> Inl (Error ''Invalid URL'')
      | Some u \<Rightarrow>
          if serverType = ''http-direct''
          then Inr \<lparr>kind = StreamableHTTP, t_url = url', t_headers = headers'\<rparr>
          else Inr \<lparr>kind = SSE, t_url = url', t_headers = headers'\<rparr>)"

definition createStatelessHTTPTransport ::
  "env \<Rightarrow> string \<Rightarrow> (string \<times> string) list \<Rightarrow> js_error + transport" where
  "createStatelessHTTPTransport e url' headers' =
     (case new_URL e url' of
        None \<Rightarrow> Inl (Error ''Invalid URL'')
      | Some u \<Rightarrow> Inr \<lparr>kind = StatelessHTTP, t_url = url', t_headers = headers'\<rparr>)"

definition isSSEConnectionError :: "js_error \<Rightarrow> bool" where
  "isSSEConnectionError err =
     (str_includes (message err) ''405'' \<or> str_includes (message err) ''404''
      \<or> str_includes (message err) ''202'' \<or> str_includes (message err) ''Stats''
      \<or> str_includes (message err) ''Unexpected token'')"

definition isAuthenticationError :: "js_error \<Rightarrow> bool" where
  "isAuthenticationError err =
     (str_includes (message err) ''401'' \<or> str_includes (message err) ''Authentication failed'')"

section \<open>Coordinator (\<open>MCPCoordinator\<close>)\<close>

definition empty_oauth2 :: OAuth2Config where
  "empty_oauth2 = \<lparr>clientId = None, clientSecret = None, tokenUrl = None, authUrl = None,
     registrationUrl = None, scope = None, scopes = None, autoDiscover = None\<rparr>"

text \<open>\<open>oauthConfig?.autoDiscover\<close> as a condition.\<close>

definition opt_autoDiscover :: "OAuth2Config option \<Rightarrow> bool" where
  "opt_autoDiscover oauthConfig = (case oauthConfig of None \<Rightarrow> False | Some c \<Rightarrow> autoDiscover c = Some True)"

definition needsDiscovery :: "OAuth2Config option \<Rightarrow> bool" where
  "needsDiscovery oauthConfig =
     (case oauthConfig of
        None \<Rightarrow> True
      | Some c \<Rightarrow> \<not> truthy (tokenUrl c) \<or> \<not> truthy (authUrl c) \<or> \<not> truthy (clientId c)
                    \<or> autoDiscover c = Some True)"

text \<open>\<open>headers['Authorization'] = v\<close> on an object kept as the list of its properties.\<close>

fun set_header :: "string \<Rightarrow> string \<Rightarrow> (string \<times> string) list \<Rightarrow> (string \<times> string) list" where
  "set_header k v [] = [(k, v)]"
| "set_header k v ((k', v') # hs) = (if k' = k then (k, v) # hs else (k', v') # set_header k v hs)"

text \<open>
  \<open>server.config = JSON.stringify(config)\<close>: the descriptor that the caller handed over is
  changed, and it is this descriptor that goes into the registry afterwards.
\<close>

definition write_back :: "env \<Rightarrow> server_config \<Rightarrow> MCPServer \<Rightarrow> MCPServer" where
  "write_back e config' server' = server'\<lparr>config := JSON_stringify_config e config'\<rparr>"

text \<open>
  The discovery phase of \<open>connect\<close>: what was discovered, the configuration after it and
  the server descriptor after it.
\<close>

definition discovery_phase ::
  "env \<Rightarrow> MCPServer \<Rightarrow> server_config \<Rightarrow> state
     \<Rightarrow> (js_error + OAuthDiscoveryResult option \<times> server_config \<times> MCPServer) \<times> state" where
  "discovery_phase e server' config' s =
     (let oauthConfig = oauth2 config';
          shouldAttemptDiscovery = (oauthConfig \<noteq> None \<or> needsDiscovery oauthConfig)
      in if shouldAttemptDiscovery \<and> (oauthConfig = None \<or> needsDiscovery oauthConfig) then
           (case url config' of
              None \<Rightarrow> (Inl (Error ''Invalid URL''), s)
            | Some url' \<Rightarrow>
                (case discoverOAuthConfiguration e url' s of
                   (Inl err, s1) \<Rightarrow> (Inl err, s1)
                 | (Inr None, s1) \<Rightarrow> (Inr (None, config', server'), s1)
                 | (Inr (Some discoveredAuth), s1) \<Rightarrow>
                     if requiresAuth discoveredAuth \<or> opt_autoDiscover oauthConfig then
                       (let o0 = (case oauth2 config' of Some c \<Rightarrow> c | None \<Rightarrow> empty_oauth2);
                            o1 = o0\<lparr>tokenUrl := d_tokenUrl discoveredAuth,
                                    authUrl := d_authUrl discoveredAuth,
                                    scopes := Some (d_scopes discoveredAuth)\<rparr>;
                            o2 = (if \<not> truthy (scope o1) \<and> truthy (d_headerScope discoveredAuth)
                                  then o1\<lparr>scope := d_headerScope discoveredAuth\<rparr> else o1);
                            config'' = config'\<lparr>oauth2 := Some o2\<rparr>
                        in (Inr (Some discoveredAuth, config'', write_back e config'' server'), s1))
                     else (Inr (Some discoveredAuth, config', server'), s1)))
         else (Inr (None, config', server'), s))"

text \<open>The dynamic client registration phase.\<close>

definition registration_phase ::
  "env \<Rightarrow> OAuthDiscoveryResult option \<Rightarrow> MCPServer \<Rightarrow> server_config \<Rightarrow> state
     \<Rightarrow> (js_error + server_config \<times> MCPServer) \<times> state" where
  "registration_phase e discoveredAuth' server' config' s =
     (case discoveredAuth' of
        None \<Rightarrow> (Inr (config', server'), s)
      | Some discoveredAuth \<Rightarrow>
          if (requiresAuth discoveredAuth \<or> opt_autoDiscover (oauth2 config'))
             \<and> truthy (d_registrationUrl discoveredAuth)
             \<and> \<not> (case oauth2 config' of None \<Rightarrow> False | Some c \<Rightarrow> truthy (clientId c))
          then
            (case registerDynamicClient e (the (d_registrationUrl discoveredAuth)) (d_scopes discoveredAuth) s of
               (None, s1) \<Rightarrow> (Inr (config', server'), s1)
             | (Some clientCreds, s1) \<Rightarrow>
                 (case oauth2 config' of
                    None \<Rightarrow> (Inl (Error ''Cannot set properties of undefined (setting clientId)''), s1)
                  | Some c \<Rightarrow>
                      (let config'' = config'\<lparr>oauth2 := Some (c\<lparr>clientId := cc_clientId clientCreds,
                                                   clientSecret := cc_clientSecret clientCreds\<rparr>)\<rparr>
                       in (Inr (config'', write_back e config'' server'), s1))))
          else (Inr (config', server'), s))"

text \<open>
  Preparing the headers. \<open>config.headers || {}\<close> is the object of the configuration when
  there is one, so the \<open>Authorization\<close> header written into it stays in the configuration;
  otherwise it is a fresh object. \<open>need_tokenUrl\<close> tells the first preparation
  (\<open>config.oauth2 && config.oauth2.tokenUrl\<close>) from the one of the fallback (\<open>config.oauth2\<close>).
  The result is the headers, the configuration and the authentication error that was caught.
\<close>

definition prepare_headers ::
  "bool \<Rightarrow> env \<Rightarrow> string \<Rightarrow> server_config \<Rightarrow> state
     \<Rightarrow> ((string \<times> string) list \<times> server_config \<times> js_error option) \<times> state" where
  "prepare_headers need_tokenUrl e serverId' config' s =
     (let headers' = (case headers config' of Some h \<Rightarrow> h | None \<Rightarrow> [])
      in case oauth2 config' of
           None \<Rightarrow> ((headers', config', None), s)
         | Some c \<Rightarrow>
             if need_tokenUrl \<and> \<not> truthy (tokenUrl c) then ((headers', config', None), s)
             else
               (case getOAuth2TokenHeader e serverId' c s of
                  (Inr authHeader, s1) \<Rightarrow>
                    (let headers'' = set_header ''Authorization'' authHeader headers'
                     in ((headers'',
                          (if headers config' = None then config' else config'\<lparr>headers := Some headers''\<rparr>),
                          None), s1))
                | (Inl err, s1) \<Rightarrow> ((headers', config', Some err), s1)))"

text \<open>
  Lines 141 to 193 of \<open>connect\<close>: the primary transport, and the fallback to the stateless
  transport when the failure looks like a refusal of the event stream.
\<close>

definition connect_transport ::
  "env \<Rightarrow> MCPServer \<Rightarrow> server_config \<Rightarrow> (string \<times> string) list \<Rightarrow> js_error option \<Rightarrow> state
     \<Rightarrow> (js_error + unit) \<times> state" where
  "connect_transport e server' config' headers' primaryAuthError s =
     (case url config' of
        None \<Rightarrow> (Inl (Error ''Invalid URL''), s)
      | Some url' \<Rightarrow>
          (case createTransport e (type server') url' headers' of
             Inl err \<Rightarrow> (Inl err, s)
           | Inr transport' \<Rightarrow>
               (case establishConnection e server' transport' s of
                  (Inr c, s1) \<Rightarrow> (Inr (), s1)
                | (Inl connectError, s1) \<Rightarrow>
                    if primaryAuthError \<noteq> None \<and> isAuthenticationError connectError then
                      (Inl (the primaryAuthError), s1)
                    else if isSSEConnectionError connectError then
                      (case prepare_headers False e (sid server') config' s1 of
                         ((fallbackHeaders, config'', fallbackAuthError), s2) \<Rightarrow>
                           (case createStatelessHTTPTransport e url' fallbackHeaders of
                              Inl err \<Rightarrow> (Inl err, s2)
                            | Inr transport'' \<Rightarrow>
                                (case establishConnection e server' transport'' s2 of
                                   (Inr c, s3) \<Rightarrow> (Inr (), s3)
                                 | (Inl fallbackError, s3) \<Rightarrow>
                                     if fallbackAuthError \<noteq> None \<and> isAuthenticationError fallbackError
                                     then (Inl (the fallbackAuthError), s3)
                                     else (Inl fallbackError, s3))))
                    else (Inl connectError, s1))))"

text \<open>
  The body of the \<open>try\<close> of \<open>connect\<close>. Its result comes with the server descriptor as the
  body has left it, which is the one that the \<open>catch\<close> records.
\<close>

definition connect_body ::
  "env \<Rightarrow> MCPServer \<Rightarrow> server_config \<Rightarrow> state \<Rightarrow> ((js_error + unit) \<times> MCPServer) \<times> state" where
  "connect_body e server' config0 s =
     (if type server' = ''http'' \<or> type server' = ''sse'' \<or> type server' = ''http-direct'' then
        (case discovery_phase e server' config0 s of
           (Inl err, s1) \<Rightarrow> ((Inl err, server'), s1)
         | (Inr (discoveredAuth, config1, server1), s1) \<Rightarrow>
             (case registration_phase e discoveredAuth server1 config1 s1 of
                (Inl err, s2) \<Rightarrow> ((Inl err, server1), s2)
              | (Inr (config2, server2), s2) \<Rightarrow>
                  (case prepare_headers True e (sid server2) config2 s2 of
                     ((headers', config3, primaryAuthError), s3) \<Rightarrow>
                       if primaryAuthError \<noteq> None
                          \<and> ((case discoveredAuth of Some d \<Rightarrow> requiresAuth d | None \<Rightarrow> False)
                               \<or> oauth2 config3 \<noteq> None)
                       then ((Inl (the primaryAuthError), server2), s3)
                       else (case connect_transport e server2 config3 headers' primaryAuthError s3 of
                               (r, s4) \<Rightarrow> ((r, server2), s4)))))
      else ((Inr (), server'), s))"

text \<open>
  \<open>MCPCoordinator.connect\<close>. \<open>JSON.parse\<close> and the reading of \<open>config.oauth2\<close> stand before
  the \<open>try\<close>: a configuration that is not JSON, or that is the JSON text \<open>null\<close>, makes
  \<open>connect\<close> throw with nothing recorded. A configuration that is a value without fields
  (a number, a string, a boolean) is read like an object that has none of \<open>url\<close>,
  \<open>headers\<close> and \<open>oauth2\<close>. What the \<open>try\<close> catches is recorded in the registry and thrown again.
\<close>

definition isAuthError :: "js_error \<Rightarrow> bool" where
  "isAuthError err = (message err \<noteq> [] \<and> (str_includes (message err) ''authorize''
     \<or> str_includes (message err) ''token expired'' \<or> truthy (err_connectUrl err)))"

definition no_config :: server_config where
  "no_config = \<lparr>url = None, headers = None, oauth2 = None\<rparr>"

definition parsed_config :: "env \<Rightarrow> MCPServer \<Rightarrow> js_error + server_config" where
  "parsed_config e server' =
     (case JSON_parse e (if config server' = [] then ''{}'' else config server') of
        NotJson \<Rightarrow> Inl (Error ''Unexpected token in JSON'')
      | JsonNull \<Rightarrow> Inl (Error ''Cannot read properties of null (reading oauth2)'')
      | JsonFalsy \<Rightarrow> Inr no_config
      | JsonValue config' \<Rightarrow> Inr config')"

definition connect :: "env \<Rightarrow> MCPServer \<Rightarrow> state \<Rightarrow> (js_error + unit) \<times> state" where
  "connect e server' s =
     (if getConnectionStatus s (sid server') = connected then (Inr (), s)
      else
        (case parsed_config e server' of
           Inl err \<Rightarrow> (Inl err, s)
         | Inr config' \<Rightarrow>
             (case connect_body e server' config' s of
                ((Inr u, server''), s1) \<Rightarrow> (Inr (), s1)
              | ((Inl err, server''), s1) \<Rightarrow>
                  (Inl err,
                   registerConnectionState server''
                     (if isAuthError err then auth_required else error)
                     (Some (message err)) (err_connectUrl err) s1))))"

text \<open>\<open>MCPCoordinator.disconnect\<close> and \<open>MCPCoordinator.callTool\<close>.\<close>

definition disconnect :: "env \<Rightarrow> string \<Rightarrow> state \<Rightarrow> (js_error + unit) \<times> state" where
  "disconnect e serverId' s = (Inr (), clearOAuth2Token serverId' (closeConnection e serverId' s))"

definition coordinator_callTool ::
  "env \<Rightarrow> string \<Rightarrow> string \<Rightarrow> string \<Rightarrow> state \<Rightarrow> (js_error + MCPToolResult) \<times> state" where
  "coordinator_callTool e toolName args serverId' s =
     (if serverId' = [] then (Inl (Error ''ServerId is required to call a tool.''), s)
      else callTool e toolName args serverId' s)"

text \<open>\<open>McpManager.disconnect\<close>.\<close>

definition Mm_disconnect :: "env \<Rightarrow> string \<Rightarrow> state \<Rightarrow> (js_error + unit) \<times> state" where
  "Mm_disconnect e serverId' s = (Inr (), clearOAuth2Token serverId' (closeConnection e serverId' s))"

section \<open>The connect route\<close>




section \<open>Requests and outcomes named in the properties\<close>

text \<open>The two requests of a refresh: with HTTP-Basic client authentication, and with the secret in the body.\<close>

definition basic_request :: "string \<Rightarrow> OAuth2Config \<Rightarrow> request" where
  "basic_request r cfg = PostForm (the (tokenUrl cfg)) (refresh_params r cfg)
      (Some (js_str (clientId cfg), the (clientSecret cfg)))"

definition body_secret_request :: "string \<Rightarrow> OAuth2Config \<Rightarrow> request" where
  "body_secret_request r cfg = PostForm (the (tokenUrl cfg))
      (refresh_params r cfg @ [(''client_secret'', the (clientSecret cfg))]) None"

text \<open>A refused request: status 401, or a refusal whose body names \<open>invalid_client\<close>.\<close>

definition client_auth_failure :: "http_response \<Rightarrow> bool" where
  "client_auth_failure resp =
     (http_status resp = 401 \<or> (\<not> ok resp \<and> str_includes (body_text resp) ''invalid_client''))"

text \<open>A fetch that brings nothing: it throws, or the response is not ok.\<close>

definition fetch_failed :: "fetch_result \<Rightarrow> bool" where
  "fetch_failed r = (case r of NetErr err \<Rightarrow> True | Resp resp \<Rightarrow> \<not> ok resp)"



text \<open>The number of connection attempts over the stateless transport among the calls issued.\<close>

definition is_fallback_attempt :: "io_call \<Rightarrow> bool" where
  "is_fallback_attempt c = (case c of ClientConnect cl t \<Rightarrow> kind t = StatelessHTTP | _ \<Rightarrow> False)"

definition fallback_attempts :: "state \<Rightarrow> nat" where
  "fallback_attempts s = length (filter is_fallback_attempt (io_log s))"

text \<open>The characters of a base64 text that the URL-safe form leaves alone or maps one to one.\<close>

definition plain :: "char \<Rightarrow> bool" where
  "plain c = (c \<noteq> CHR ''='' \<and> c \<noteq> CHR ''-'' \<and> c \<noteq> CHR ''_'')"



section \<open>Example environments\<close>

text \<open>
  Small environments on which the properties are exercised. Their URLs are bare origins,
  so \<open>new URL(u).origin\<close> is \<open>u\<close> itself and the path is \<open>/\<close>.
\<close>

definition demo_url :: string where
  "demo_url = ''https://mcp.example''"

definition demo_config_text :: string where
  "demo_config_text = ''{'' @ [CHR 0x22] @ ''url'' @ [CHR 0x22] @ '':'' @ [CHR 0x22] @ demo_url @ [CHR 0x22] @ ''}''"

definition demo_parse :: "string \<Rightarrow> server_config json_result" where
  "demo_parse txt =
     (if txt = ''{}'' then JsonValue \<lparr>url = None, headers = None, oauth2 = None\<rparr>
      else if txt = demo_config_text then JsonValue \<lparr>url = Some demo_url, headers = None, oauth2 = None\<rparr>
      else if txt = ''null'' then JsonNull
      else NotJson)"

definition demo_stringify :: "server_config \<Rightarrow> string" where
  "demo_stringify c =
     (if c = \<lparr>url = None, headers = None, oauth2 = None\<rparr> then ''{}''
      else if c = \<lparr>url = Some demo_url, headers = None, oauth2 = None\<rparr> then demo_config_text
      else ''{'' @ [CHR 0x22] @ ''url'' @ [CHR 0x22] @ '':'' @ [CHR 0x22] @ js_str (url c) @ [CHR 0x22]
           @ '','' @ [CHR 0x22] @ ''oauth2'' @ [CHR 0x22] @ '':{}}'')"

definition status_response :: "nat \<Rightarrow> string \<Rightarrow> fetch_result" where
  "status_response n body = Resp \<lparr>http_status = n, www_authenticate = None, body_text = body, json = NotJson\<rparr>"

definition demo_env ::
  "(io_call list \<Rightarrow> request \<Rightarrow> fetch_result) \<Rightarrow> (io_call list \<Rightarrow> transport \<Rightarrow> js_error option) \<Rightarrow> env" where
  "demo_env net' connect' =
     \<lparr>clock = (\<lambda>log. 1700000000000),
      net = net',
      mcp_connect = connect',
      mcp_close = (\<lambda>log c. None),
      mcp_callTool = (\<lambda>log c toolName args. Inr \<lparr>content = Some [], isError = Some False\<rparr>),
      new_URL = (\<lambda>u. if starts_with u ''http'' then Some \<lparr>origin = u, pathname = ''/''\<rparr> else None),
      new_URL_base = (\<lambda>path base. if starts_with base ''http'' then Some (base @ path) else None),
      JSON_parse = demo_parse,
      JSON_stringify_config = demo_stringify,
      appUrl = ''http://localhost:3000'',
      encodeURIComponent = (\<lambda>x. x)\<rparr>"

definition initial_state :: state where
  "initial_state = \<lparr>oauth2Tokens = Map.empty, connections = Map.empty, io_log = []\<rparr>"

definition demo_server :: "string \<Rightarrow> MCPServer" where
  "demo_server ty = \<lparr>sid = ''s1'', name = ''demo'', type = ty, config = demo_config_text\<rparr>"

text \<open>A token endpoint that refuses HTTP-Basic authentication with 401 and the body secret with 400.\<close>

definition refusing_net :: "io_call list \<Rightarrow> request \<Rightarrow> fetch_result" where
  "refusing_net log req =
     (case req of
        PostForm u ps (Some b) \<Rightarrow> status_response 401 ''invalid_client''
      | PostForm u ps None \<Rightarrow> status_response 400 ''invalid_grant''
      | _ \<Rightarrow> NetErr (Error ''fetch failed''))"

definition demo_oauth2 :: OAuth2Config where
  "demo_oauth2 = \<lparr>clientId = Some ''cid'', clientSecret = Some ''sec'', tokenUrl = Some ''https://as.example/token'',
     authUrl = Some ''https://as.example/authorize'', registrationUrl = None, scope = None, scopes = None,
     autoDiscover = None\<rparr>"

definition expired_token :: OAuth2Token where
  "expired_token = \<lparr>tok_access_token = Some ''old'', tok_token_type = ''Bearer'', tok_expires_in = Num 3600,
     expires_at = Num 0, tok_refresh_token = Some ''r0''\<rparr>"

text \<open>A resource that answers 401 to the probe and whose metadata is nowhere to be found.\<close>

definition bare_401_net :: "io_call list \<Rightarrow> request \<Rightarrow> fetch_result" where
  "bare_401_net log req = (if req = Get demo_url then status_response 401 [] else status_response 404 [])"



text \<open>A resource without authentication whose event stream answers with the given failure.\<close>

definition open_net :: "io_call list \<Rightarrow> request \<Rightarrow> fetch_result" where
  "open_net log req = status_response 200 []"

definition sse_refused :: "string \<Rightarrow> io_call list \<Rightarrow> transport \<Rightarrow> js_error option" where
  "sse_refused msg log t = (if kind t = StatelessHTTP then None else Some (Error msg))"

text \<open>A token endpoint that grants a new access token and sends no refresh token.\<close>

definition granting_net :: "io_call list \<Rightarrow> request \<Rightarrow> fetch_result" where
  "granting_net log req =
     Resp \<lparr>http_status = 200, www_authenticate = None, body_text = [],
           json = JsonValue (empty_json\<lparr>j_access_token := Some ''new''\<rparr>)\<rparr>"

definition vault_state :: state where
  "vault_state = initial_state\<lparr>oauth2Tokens := [''s1'' \<mapsto> expired_token]\<rparr>"

definition omitted_refresh :: token_data where
  "omitted_refresh = \<lparr>access_token = Some ''new'', token_type = None, expires_in = None,
     refresh_token = None, granted_scope = None\<rparr>"

text \<open>An event stream and a stateless endpoint that both answer with the given failure.\<close>

definition always_refused :: "string \<Rightarrow> io_call list \<Rightarrow> transport \<Rightarrow> js_error option" where
  "always_refused msg log t = Some (Error msg)"

text \<open>A registry that holds one record for the server \<open>s1\<close>, in the given status, and its token.\<close>

definition demo_connection :: "ConnectionStatus \<Rightarrow> MCPConnection" where
  "demo_connection st = \<lparr>client = Some (Client 0), server = demo_server ''sse'', status = st,
     conn_error = None, connectUrl = None\<rparr>"

definition session_state :: "ConnectionStatus \<Rightarrow> state" where
  "session_state st = vault_state\<lparr>connections := [''s1'' \<mapsto> demo_connection st]\<rparr>"

text \<open>The failures of an event stream that answers 404, and of one that answers 401.\<close>

definition refused_404 :: string where
  "refused_404 = ''SSE error: Non-200 status code (404)''"















section \<open>Properties\<close>

subsection \<open>Scope resolution\<close>

text \<open>
  C2 (as amended). \<open>resolveScopes\<close> follows the order user scope, header scope, PRM scopes,
  registration scopes, ASM scopes, fallback. A user scope given as an array is returned as it
  is, even when it is empty; a user scope or a header scope given as a non-empty string is
  returned split at white space; each of the three arrays is taken only when it has an
  element; the fallback is \<open>openid\<close>, \<open>email\<close>, \<open>profile\<close>.
\<close>

theorem resolveScopes_priority:
  "(\<forall>xs. userScope inp = Some (ScopeArr xs) \<longrightarrow> resolveScopes inp = xs) \<and>
   (\<forall>u. userScope inp = Some (ScopeStr u) \<and> u \<noteq> [] \<longrightarrow> resolveScopes inp = split_scopes u) \<and>
   (userScope inp = None \<or> userScope inp = Some (ScopeStr []) \<longrightarrow>
     (\<forall>h. headerScope inp = Some h \<and> h \<noteq> [] \<longrightarrow> resolveScopes inp = split_scopes h) \<and>
     (headerScope inp = None \<or> headerScope inp = Some [] \<longrightarrow>
       (\<forall>p. prmScopes inp = Some p \<and> p \<noteq> [] \<longrightarrow> resolveScopes inp = p) \<and>
       (prmScopes inp = None \<or> prmScopes inp = Some [] \<longrightarrow>
         (\<forall>r. registrationScopes inp = Some r \<and> r \<noteq> [] \<longrightarrow> resolveScopes inp = r) \<and>
         (registrationScopes inp = None \<or> registrationScopes inp = Some [] \<longrightarrow>
           (\<forall>a. asmScopes inp = Some a \<and> a \<noteq> [] \<longrightarrow> resolveScopes inp = a) \<and>
           (asmScopes inp = None \<or> asmScopes inp = Some [] \<longrightarrow>
              resolveScopes inp = [''openid'', ''email'', ''profile''])))))"
  by (auto simp: resolveScopes_def user_truthy_def truthy_def has_length_def fallback_scopes_def)

text \<open>
  The examples of the specification: the user scope \<open>a b\<close> wins over the header scope \<open>c\<close>
  and the PRM scopes \<open>d\<close>; without a user scope the header scope wins; then the PRM scopes,
  and the fallback when nothing is given.
\<close>

theorem resolveScopes_priority_witness:
  "resolveScopes \<lparr>userScope = Some (ScopeStr ''a b''), headerScope = Some ''c'',
      prmScopes = Some [''d''], asmScopes = None, registrationScopes = None\<rparr> = [''a'', ''b'']
   \<and> resolveScopes \<lparr>userScope = None, headerScope = Some ''c'',
      prmScopes = Some [''d''], asmScopes = None, registrationScopes = None\<rparr> = [''c'']
   \<and> resolveScopes \<lparr>userScope = None, headerScope = None,
      prmScopes = Some [''d''], asmScopes = Some [''e''], registrationScopes = None\<rparr> = [''d'']
   \<and> resolveScopes \<lparr>userScope = None, headerScope = None,
      prmScopes = None, asmScopes = None, registrationScopes = None\<rparr> = [''openid'', ''email'', ''profile'']"
  using resolveScopes_priority [of "\<lparr>userScope = Some (ScopeStr ''a b''), headerScope = Some ''c'',
      prmScopes = Some [''d''], asmScopes = None, registrationScopes = None\<rparr>"]
    resolveScopes_priority [of "\<lparr>userScope = None, headerScope = Some ''c'',
      prmScopes = Some [''d''], asmScopes = None, registrationScopes = None\<rparr>"]
    resolveScopes_priority [of "\<lparr>userScope = None, headerScope = None,
      prmScopes = Some [''d''], asmScopes = Some [''e''], registrationScopes = None\<rparr>"]
    resolveScopes_priority [of "\<lparr>userScope = None, headerScope = None,
      prmScopes = None, asmScopes = None, registrationScopes = None\<rparr>"]
  by (simp add: split_scopes_def is_space_def)

text \<open>
  An empty array as user scope is not skipped: the result is empty although the header
  scope \<open>c\<close> and the PRM scopes \<open>d\<close> are there.
\<close>

theorem resolveScopes_empty_user_array_counterexample:
  "resolveScopes \<lparr>userScope = Some (ScopeArr []), headerScope = Some ''c'',
      prmScopes = Some [''d''], asmScopes = None, registrationScopes = None\<rparr> = []
   \<and> resolveScopes \<lparr>userScope = Some (ScopeArr []), headerScope = Some ''c'',
      prmScopes = Some [''d''], asmScopes = None, registrationScopes = None\<rparr> \<noteq> [''c'']"
  by (simp add: resolveScopes_def user_truthy_def)

subsection \<open>Numbers\<close>





lemma round_magnitude_small: "n < 2 ^ 53 \<Longrightarrow> round_magnitude n = n"
  by (simp add: round_magnitude_def)

lemma round_double_exact: "\<bar>x\<bar> < 2 ^ 53 \<Longrightarrow> round_double x = Num x"
proof -
  assume a: "\<bar>x\<bar> < 2 ^ 53"
  have "(2::int) ^ 53 < 2 ^ 1024" by (rule power_strict_increasing) simp_all
  with a have b: "\<not> 2 ^ 1024 \<le> \<bar>x\<bar>" by linarith
  show ?thesis
    unfolding round_double_def Let_def round_magnitude_small [OF a]
    using b by (simp only: if_False) (simp add: abs_if)
qed




subsection \<open>Token vault\<close>

lemmas demo_simps = vault_state_def initial_state_def expired_token_def
     Date_now_def demo_env_def truthy_def demo_oauth2_def Let_def fetch_def
     granting_net_def ok_def empty_json_def string_or_def num_or_def or_else_def
     js_str_def refresh_params_def status_response_def properties_def still_valid_def

lemma io_log_setOAuth2Token [simp]: "io_log (setOAuth2Token e i td s) = io_log s"
  by (simp add: setOAuth2Token_def Let_def)

lemma not_ok_401: "http_status r = 401 \<Longrightarrow> \<not> ok r"
  by (simp add: ok_def)

lemma refresh_result_fields:
  "refresh_result response r = Inr td \<Longrightarrow>
     \<exists>j. ok response \<and> properties (json response) = Some j \<and> access_token td = j_access_token j
       \<and> refresh_token td = (if truthy (j_refresh_token j) then j_refresh_token j else Some r)"
  by (auto simp: refresh_result_def or_else_def split: if_splits option.splits)

lemma refreshToken_last_response:
  "refreshToken e r cfg s = (Inr td, s') \<Longrightarrow>
     \<exists>req resp. io_log s' \<noteq> io_log s \<and> last (io_log s') = Fetch req
        \<and> net e (butlast (io_log s')) req = Resp resp \<and> refresh_result resp r = Inr td"
  by (auto simp: refreshToken_def fetch_def Let_def butlast_append
        split: if_splits fetch_result.splits prod.splits)

lemma setOAuth2Token_lookup:
  "oauth2Tokens (setOAuth2Token e i td s) i =
     Some \<lparr>tok_access_token = access_token td,
           tok_token_type = string_or (token_type td) ''Bearer'',
           tok_expires_in = num_or (expires_in td) (Num 3600),
           expires_at = js_plus (Num (Date_now e s)) (js_times (num_or (expires_in td) (Num 3600)) (Num 1000)),
           tok_refresh_token = refresh_token td\<rparr>"
  by (simp add: setOAuth2Token_def Let_def)

lemma header_refresh_stores:
  assumes tok: "oauth2Tokens s i = Some tok" and old: "\<not> still_valid e s tok"
    and res: "getOAuth2TokenHeader e i cfg s = (Inr h, s')"
  shows "\<exists>req resp j tok'. io_log s' \<noteq> io_log s \<and> last (io_log s') = Fetch req
          \<and> net e (butlast (io_log s')) req = Resp resp \<and> ok resp
          \<and> properties (json resp) = Some j \<and> oauth2Tokens s' i = Some tok'
          \<and> tok_access_token tok' = j_access_token j
          \<and> tok_refresh_token tok' =
               (if truthy (j_refresh_token j) then j_refresh_token j else tok_refresh_token tok)"
proof -
  from tok old res have r: "truthy (tok_refresh_token tok)"
    by (auto simp: getOAuth2TokenHeader_def Let_def split: if_splits)
  then have ne: "Some (the (tok_refresh_token tok)) = tok_refresh_token tok"
    by (auto simp: truthy_def split: option.splits)
  from tok old res r obtain td s1 where
    rt: "refreshToken e (the (tok_refresh_token tok)) cfg s = (Inr td, s1)"
    and s': "s' = setOAuth2Token e i td s1"
    by (auto simp: getOAuth2TokenHeader_def Let_def split: if_splits prod.splits sum.splits)
  from refreshToken_last_response [OF rt] obtain req resp where
    l: "io_log s1 \<noteq> io_log s" "last (io_log s1) = Fetch req" "net e (butlast (io_log s1)) req = Resp resp"
    and rr: "refresh_result resp (the (tok_refresh_token tok)) = Inr td"
    by blast
  from refresh_result_fields [OF rr] obtain j :: json_obj where
    j: "ok resp" "properties (json resp) = Some j" "access_token td = j_access_token j"
       "refresh_token td = (if truthy (j_refresh_token j) then j_refresh_token j
                            else Some (the (tok_refresh_token tok)))"
    by blast
  show ?thesis
    using l j ne by (intro exI [of _ req] exI [of _ resp] exI [of _ j]) (simp add: s' setOAuth2Token_lookup)
qed

lemma expires_at_exact:
  assumes "\<bar>now\<bar> + \<bar>n\<bar> * 1000 < 2 ^ 53"
  shows "js_plus (Num now) (js_times (Num n) (Num 1000)) = Num (now + n * 1000)"
proof -
  have a: "\<bar>n * 1000\<bar> = \<bar>n\<bar> * 1000" by (simp add: abs_mult)
  have b: "\<bar>n * 1000\<bar> < 2 ^ 53" using assms a by linarith
  have c: "\<bar>now + n * 1000\<bar> < 2 ^ 53" using assms a by linarith
  show ?thesis by (simp add: round_double_exact [OF b] round_double_exact [OF c])
qed

text \<open>
  C5 (as amended). \<open>setOAuth2Token\<close> stores a record whose \<open>expires_at\<close> is the time of the call
  plus 1000 times \<open>expires_in\<close>, 3600 when \<open>expires_in\<close> is absent or zero, in the arithmetic of
  doubles: it is that very number of milliseconds as long as the numbers stay below \<open>2 ^ 53\<close>.
  The refresh token of the record is the one of the token response, none when the response
  has none: nothing of the previous record is kept. The previous refresh token is kept on the
  refresh path of \<open>OAuthHandler\<close>: when \<open>getOAuth2TokenHeader\<close> has refreshed an expired token,
  the record it has stored holds the access token of the response that the token endpoint
  gave last, and the refresh token of that response when it is not empty, and otherwise the
  refresh token of the previous record.
\<close>

theorem setOAuth2Token_stores_response:
  "(\<exists>tok. oauth2Tokens (setOAuth2Token e serverId' tokenData s) serverId' = Some tok
      \<and> expires_at tok = js_plus (Num (Date_now e s))
                            (js_times (num_or (expires_in tokenData) (Num 3600)) (Num 1000))
      \<and> (\<forall>n. expires_in tokenData = Some (Num n) \<and> n \<noteq> 0 \<and> \<bar>Date_now e s\<bar> + \<bar>n\<bar> * 1000 < 2 ^ 53
             \<longrightarrow> expires_at tok = Num (Date_now e s + n * 1000))
      \<and> ((expires_in tokenData = None \<or> expires_in tokenData = Some (Num 0))
             \<and> \<bar>Date_now e s\<bar> + 3600 * 1000 < 2 ^ 53
             \<longrightarrow> expires_at tok = Num (Date_now e s + 3600 * 1000))
      \<and> tok_refresh_token tok = refresh_token tokenData)
   \<and> (\<forall>tok h s'. oauth2Tokens s serverId' = Some tok \<and> \<not> still_valid e s tok
          \<and> getOAuth2TokenHeader e serverId' cfg s = (Inr h, s') \<longrightarrow>
         (\<exists>req resp j tok'. io_log s' \<noteq> io_log s \<and> last (io_log s') = Fetch req
            \<and> net e (butlast (io_log s')) req = Resp resp \<and> ok resp
            \<and> properties (json resp) = Some j \<and> oauth2Tokens s' serverId' = Some tok'
            \<and> tok_access_token tok' = j_access_token j
            \<and> tok_refresh_token tok' =
                 (if truthy (j_refresh_token j) then j_refresh_token j else tok_refresh_token tok)))"
proof (intro conjI allI impI)
  let ?tok = "\<lparr>tok_access_token = access_token tokenData,
           tok_token_type = string_or (token_type tokenData) ''Bearer'',
           tok_expires_in = num_or (expires_in tokenData) (Num 3600),
           expires_at = js_plus (Num (Date_now e s))
                          (js_times (num_or (expires_in tokenData) (Num 3600)) (Num 1000)),
           tok_refresh_token = refresh_token tokenData\<rparr>"
  have a: "\<bar>Date_now e s\<bar> + \<bar>n\<bar> * 1000 < 2 ^ 53 \<Longrightarrow>
      js_plus (Num (Date_now e s)) (js_times (Num n) (Num 1000)) = Num (Date_now e s + n * 1000)" for n
    by (rule expires_at_exact)
  have b: "\<bar>Date_now e s\<bar> + 3600 * 1000 < 2 ^ 53 \<Longrightarrow>
      js_plus (Num (Date_now e s)) (js_times (Num 3600) (Num 1000)) = Num (Date_now e s + 3600 * 1000)"
    using expires_at_exact [of "Date_now e s" 3600] by simp
  show "\<exists>tok. oauth2Tokens (setOAuth2Token e serverId' tokenData s) serverId' = Some tok
      \<and> expires_at tok = js_plus (Num (Date_now e s))
                            (js_times (num_or (expires_in tokenData) (Num 3600)) (Num 1000))
      \<and> (\<forall>n. expires_in tokenData = Some (Num n) \<and> n \<noteq> 0 \<and> \<bar>Date_now e s\<bar> + \<bar>n\<bar> * 1000 < 2 ^ 53
             \<longrightarrow> expires_at tok = Num (Date_now e s + n * 1000))
      \<and> ((expires_in tokenData = None \<or> expires_in tokenData = Some (Num 0))
             \<and> \<bar>Date_now e s\<bar> + 3600 * 1000 < 2 ^ 53
             \<longrightarrow> expires_at tok = Num (Date_now e s + 3600 * 1000))
      \<and> tok_refresh_token tok = refresh_token tokenData"
    using a b by (intro exI [of _ ?tok]) (auto simp: setOAuth2Token_lookup num_or_def)
next
  fix tok h s'
  assume "oauth2Tokens s serverId' = Some tok \<and> \<not> still_valid e s tok
          \<and> getOAuth2TokenHeader e serverId' cfg s = (Inr h, s')"
  then show "\<exists>req resp j tok'. io_log s' \<noteq> io_log s \<and> last (io_log s') = Fetch req
            \<and> net e (butlast (io_log s')) req = Resp resp \<and> ok resp
            \<and> properties (json resp) = Some j \<and> oauth2Tokens s' serverId' = Some tok'
            \<and> tok_access_token tok' = j_access_token j
            \<and> tok_refresh_token tok' =
                 (if truthy (j_refresh_token j) then j_refresh_token j else tok_refresh_token tok)"
    by (blast intro: header_refresh_stores)
qed

lemma demo_header:
  "fst (getOAuth2TokenHeader (demo_env granting_net (sse_refused [])) ''s1'' demo_oauth2 vault_state)
    = Inr ''Bearer new''"
  by (simp add: getOAuth2TokenHeader_def refreshToken_def refresh_result_def demo_simps
      round_double_def round_magnitude_def)

text \<open>
  A record with the refresh token \<open>r0\<close> is replaced by a response without refresh token:
  the new record has none.
\<close>

theorem setOAuth2Token_drops_refresh_token_counterexample:
  "tok_refresh_token (the (oauth2Tokens vault_state ''s1'')) = Some ''r0''
   \<and> tok_refresh_token (the (oauth2Tokens
         (setOAuth2Token (demo_env granting_net (sse_refused [])) ''s1'' omitted_refresh vault_state) ''s1'')) = None"
  by (simp add: setOAuth2Token_def omitted_refresh_def demo_simps)

theorem setOAuth2Token_stores_response_witness:
  "(\<exists>tok. oauth2Tokens (setOAuth2Token (demo_env granting_net (sse_refused [])) ''s1'' omitted_refresh vault_state) ''s1'' = Some tok
      \<and> expires_at tok = Num (1700000000000 + 3600 * 1000)
      \<and> tok_refresh_token tok = None)
   \<and> (\<exists>tok'. oauth2Tokens (snd (getOAuth2TokenHeader (demo_env granting_net (sse_refused [])) ''s1'' demo_oauth2 vault_state)) ''s1'' = Some tok'
          \<and> tok_access_token tok' = Some ''new''
          \<and> tok_refresh_token tok' = Some ''r0'')"
proof -
  let ?E = "demo_env granting_net (sse_refused [])"
  let ?R = "\<lparr>http_status = 200, www_authenticate = None, body_text = [],
           json = JsonValue (empty_json\<lparr>j_access_token := Some ''new''\<rparr>)\<rparr>"
  note T = setOAuth2Token_stores_response [of ?E "''s1''" omitted_refresh vault_state demo_oauth2]
  obtain s' where h: "getOAuth2TokenHeader ?E ''s1'' demo_oauth2 vault_state = (Inr ''Bearer new'', s')"
    using demo_header by (cases "getOAuth2TokenHeader ?E ''s1'' demo_oauth2 vault_state") simp
  have tok: "oauth2Tokens vault_state ''s1'' = Some expired_token"
    by (simp add: vault_state_def initial_state_def)
  have old: "\<not> still_valid ?E vault_state expired_token"
    by (simp add: demo_simps round_double_def round_magnitude_def)
  have n: "net ?E log req = Resp ?R" for log req
    by (simp add: demo_env_def granting_net_def)
  have c: "expires_in omitted_refresh = None" "refresh_token omitted_refresh = None"
      "\<bar>Date_now ?E vault_state\<bar> + 3600 * 1000 < 2 ^ 53" "Date_now ?E vault_state = 1700000000000"
    by (simp_all add: omitted_refresh_def Date_now_def demo_env_def)
  from T c have 1: "\<exists>tok. oauth2Tokens (setOAuth2Token ?E ''s1'' omitted_refresh vault_state) ''s1'' = Some tok
      \<and> expires_at tok = Num (1700000000000 + 3600 * 1000) \<and> tok_refresh_token tok = None"
    by auto
  from T tok old h obtain req resp j tok' where
    r: "net ?E (butlast (io_log s')) req = Resp resp" "properties (json resp) = Some j"
       "oauth2Tokens s' ''s1'' = Some tok'" "tok_access_token tok' = j_access_token j"
       "tok_refresh_token tok' =
          (if truthy (j_refresh_token j) then j_refresh_token j else tok_refresh_token expired_token)"
    by blast
  from r(1) n have "resp = ?R" by simp
  with r(2) have "j = empty_json\<lparr>j_access_token := Some ''new''\<rparr>" by (simp add: properties_def)
  with r(3-5) have 2: "oauth2Tokens s' ''s1'' = Some tok' \<and> tok_access_token tok' = Some ''new''
      \<and> tok_refresh_token tok' = Some ''r0''"
    by (simp add: empty_json_def truthy_def expired_token_def)
  from 1 2 h show ?thesis by auto
qed

lemma refreshToken_retry:
  assumes "truthy (tokenUrl cfg)" "truthy (clientSecret cfg)"
    and "net e (io_log s) (basic_request r cfg) = Resp resp1"
    and "client_auth_failure resp1"
  shows "refreshToken e r cfg s =
     ((case net e (io_log s @ [Fetch (basic_request r cfg)]) (body_secret_request r cfg) of
         NetErr err \<Rightarrow> Inl err | Resp resp2 \<Rightarrow> refresh_result resp2 r),
      s\<lparr>io_log := io_log s @ [Fetch (basic_request r cfg), Fetch (body_secret_request r cfg)]\<rparr>)"
  using assms
  by (auto simp: refreshToken_def fetch_def Let_def basic_request_def body_secret_request_def
        client_auth_failure_def not_ok_401 split: fetch_result.splits)

lemma refresh_result_not_ok: "\<not> ok resp \<Longrightarrow> \<exists>err. refresh_result resp r = Inl err"
  by (simp add: refresh_result_def)

lemma refresh_result_Inr_ok: "refresh_result resp r = Inr td \<Longrightarrow> ok resp"
  by (simp add: refresh_result_def split: if_splits)

lemma refreshToken_retry_failed:
  assumes "truthy (tokenUrl cfg)" "truthy (clientSecret cfg)"
    and "net e (io_log s) (basic_request r cfg) = Resp resp1"
    and "client_auth_failure resp1"
    and "fetch_failed (net e (io_log s @ [Fetch (basic_request r cfg)]) (body_secret_request r cfg))"
  shows "\<exists>err. fst (refreshToken e r cfg s) = Inl err"
  using assms(5) refresh_result_not_ok
  by (auto simp: refreshToken_retry [OF assms(1-4)] fetch_failed_def split: fetch_result.splits)

lemma refreshToken_at_most_two:
  "refreshToken e r cfg s = (res, s') \<Longrightarrow> length (io_log s') \<le> length (io_log s) + 2"
  by (auto simp: refreshToken_def fetch_def Let_def split: if_splits fetch_result.splits prod.splits)

lemma getOAuth2TokenHeader_at_most_two:
  "length (io_log (snd (getOAuth2TokenHeader e i cfg s))) \<le> length (io_log s) + 2"
  by (auto simp: getOAuth2TokenHeader_def Let_def dest: refreshToken_at_most_two
        split: option.splits if_splits prod.splits sum.splits)

lemma Mm_getOAuth2TokenHeader_at_most_two:
  "length (io_log (snd (Mm_getOAuth2TokenHeader e i cfg s))) \<le> length (io_log s) + 2"
  by (auto simp: Mm_getOAuth2TokenHeader_def fetch_def Let_def
        split: option.splits if_splits prod.splits sum.splits fetch_result.splits)

lemma getOAuth2TokenHeader_retry:
  assumes "truthy (tokenUrl cfg)" "truthy (clientSecret cfg)"
    and "oauth2Tokens s i = Some tok" "\<not> still_valid e s tok"
    and "tok_refresh_token tok = Some r" "r \<noteq> []"
    and "net e (io_log s) (basic_request r cfg) = Resp resp1"
    and "client_auth_failure resp1"
  shows "io_log (snd (getOAuth2TokenHeader e i cfg s))
           = io_log s @ [Fetch (basic_request r cfg), Fetch (body_secret_request r cfg)]
     \<and> (fetch_failed (net e (io_log s @ [Fetch (basic_request r cfg)]) (body_secret_request r cfg))
          \<longrightarrow> fst (getOAuth2TokenHeader e i cfg s) = Inl (auth_required_error e cfg))"
proof -
  have r: "truthy (tok_refresh_token tok)" "the (tok_refresh_token tok) = r"
    using assms(5,6) by (simp_all add: truthy_def)
  show ?thesis
    using assms(1,3,4) r
    by (auto simp: getOAuth2TokenHeader_def Let_def fetch_failed_def
          refreshToken_retry [OF assms(1,2,7,8)] split: fetch_result.splits sum.splits
          dest: refresh_result_Inr_ok)
qed

lemma Mm_getOAuth2TokenHeader_retry:
  assumes "truthy (tokenUrl cfg)" "truthy (clientSecret cfg)"
    and "oauth2Tokens s i = Some tok" "\<not> still_valid e s tok"
    and "tok_refresh_token tok = Some r" "r \<noteq> []"
    and "net e (io_log s) (basic_request r cfg) = Resp resp1"
    and "client_auth_failure resp1"
  shows "io_log (snd (Mm_getOAuth2TokenHeader e i cfg s))
           = io_log s @ [Fetch (basic_request r cfg), Fetch (body_secret_request r cfg)]
     \<and> (fetch_failed (net e (io_log s @ [Fetch (basic_request r cfg)]) (body_secret_request r cfg))
          \<longrightarrow> fst (Mm_getOAuth2TokenHeader e i cfg s) = Inl (auth_required_error e cfg))"
  using assms
  by (auto simp: Mm_getOAuth2TokenHeader_def fetch_def Let_def basic_request_def body_secret_request_def
        truthy_def client_auth_failure_def not_ok_401 fetch_failed_def
        split: fetch_result.splits option.splits)

text \<open>
  C4. A refresh that uses HTTP-Basic client authentication and is refused with status 401, or
  with a refusal whose body contains \<open>invalid_client\<close>, issues exactly one more request, with
  the client secret in the body and without the \<open>Authorization\<close> header. When that request
  fails too, the refresh fails, and the caller of \<open>getOAuth2TokenHeader\<close> gets the error that
  asks for authorization. No refresh issues more than two requests. The same holds for the
  refresh written inline in \<open>McpManager.getOAuth2TokenHeader\<close>.
\<close>

theorem refresh_retries_exactly_once:
  assumes "truthy (tokenUrl cfg)" and "truthy (clientSecret cfg)"
    and "net e (io_log s) (basic_request r cfg) = Resp resp1"
    and "client_auth_failure resp1"
  shows "io_log (snd (refreshToken e r cfg s))
           = io_log s @ [Fetch (basic_request r cfg), Fetch (body_secret_request r cfg)]
     \<and> (fetch_failed (net e (io_log s @ [Fetch (basic_request r cfg)]) (body_secret_request r cfg))
          \<longrightarrow> (\<exists>err. fst (refreshToken e r cfg s) = Inl err))
     \<and> (\<forall>i tok. oauth2Tokens s i = Some tok \<and> \<not> still_valid e s tok
            \<and> tok_refresh_token tok = Some r \<and> r \<noteq> [] \<longrightarrow>
          io_log (snd (getOAuth2TokenHeader e i cfg s))
            = io_log s @ [Fetch (basic_request r cfg), Fetch (body_secret_request r cfg)]
          \<and> io_log (snd (Mm_getOAuth2TokenHeader e i cfg s))
            = io_log s @ [Fetch (basic_request r cfg), Fetch (body_secret_request r cfg)]
          \<and> (fetch_failed (net e (io_log s @ [Fetch (basic_request r cfg)]) (body_secret_request r cfg))
               \<longrightarrow> fst (getOAuth2TokenHeader e i cfg s) = Inl (auth_required_error e cfg)
                 \<and> fst (Mm_getOAuth2TokenHeader e i cfg s) = Inl (auth_required_error e cfg)))
     \<and> (\<forall>e' r' cfg' s' i'.
          length (io_log (snd (refreshToken e' r' cfg' s'))) \<le> length (io_log s') + 2
          \<and> length (io_log (snd (getOAuth2TokenHeader e' i' cfg' s'))) \<le> length (io_log s') + 2
          \<and> length (io_log (snd (Mm_getOAuth2TokenHeader e' i' cfg' s'))) \<le> length (io_log s') + 2)"
proof (intro conjI allI impI)
  show "io_log (snd (refreshToken e r cfg s))
           = io_log s @ [Fetch (basic_request r cfg), Fetch (body_secret_request r cfg)]"
    by (simp add: refreshToken_retry [OF assms])
next
  assume "fetch_failed (net e (io_log s @ [Fetch (basic_request r cfg)]) (body_secret_request r cfg))"
  with assms show "\<exists>err. fst (refreshToken e r cfg s) = Inl err"
    by (rule refreshToken_retry_failed)
next
  fix i tok
  assume h: "oauth2Tokens s i = Some tok \<and> \<not> still_valid e s tok
            \<and> tok_refresh_token tok = Some r \<and> r \<noteq> []"
  from h getOAuth2TokenHeader_retry [OF assms(1,2) _ _ _ _ assms(3,4), of i tok]
  show "io_log (snd (getOAuth2TokenHeader e i cfg s))
            = io_log s @ [Fetch (basic_request r cfg), Fetch (body_secret_request r cfg)]"
    by blast
  from h Mm_getOAuth2TokenHeader_retry [OF assms(1,2) _ _ _ _ assms(3,4), of i tok]
  show "io_log (snd (Mm_getOAuth2TokenHeader e i cfg s))
            = io_log s @ [Fetch (basic_request r cfg), Fetch (body_secret_request r cfg)]"
    by blast
  assume f: "fetch_failed (net e (io_log s @ [Fetch (basic_request r cfg)]) (body_secret_request r cfg))"
  from h f getOAuth2TokenHeader_retry [OF assms(1,2) _ _ _ _ assms(3,4), of i tok]
  show "fst (getOAuth2TokenHeader e i cfg s) = Inl (auth_required_error e cfg)"
    by blast
  from h f Mm_getOAuth2TokenHeader_retry [OF assms(1,2) _ _ _ _ assms(3,4), of i tok]
  show "fst (Mm_getOAuth2TokenHeader e i cfg s) = Inl (auth_required_error e cfg)"
    by blast
next
  fix e' :: env and r' cfg' s' i'
  show "length (io_log (snd (refreshToken e' r' cfg' s'))) \<le> length (io_log s') + 2"
    using refreshToken_at_most_two [of e' r' cfg' s'] by (cases "refreshToken e' r' cfg' s'") simp
  show "length (io_log (snd (getOAuth2TokenHeader e' i' cfg' s'))) \<le> length (io_log s') + 2"
    by (rule getOAuth2TokenHeader_at_most_two)
  show "length (io_log (snd (Mm_getOAuth2TokenHeader e' i' cfg' s'))) \<le> length (io_log s') + 2"
    by (rule Mm_getOAuth2TokenHeader_at_most_two)
qed

theorem refresh_retries_exactly_once_witness:
  "io_log (snd (getOAuth2TokenHeader (demo_env refusing_net (sse_refused [])) ''s1'' demo_oauth2 vault_state))
     = [Fetch (basic_request ''r0'' demo_oauth2), Fetch (body_secret_request ''r0'' demo_oauth2)]
   \<and> io_log (snd (refreshToken (demo_env refusing_net (sse_refused [])) ''r0'' demo_oauth2 vault_state))
     = [Fetch (basic_request ''r0'' demo_oauth2), Fetch (body_secret_request ''r0'' demo_oauth2)]
   \<and> (\<exists>err. fst (refreshToken (demo_env refusing_net (sse_refused [])) ''r0'' demo_oauth2 vault_state) = Inl err)
   \<and> fst (getOAuth2TokenHeader (demo_env refusing_net (sse_refused [])) ''s1'' demo_oauth2 vault_state)
       = Inl (auth_required_error (demo_env refusing_net (sse_refused [])) demo_oauth2)"
proof -
  let ?E = "demo_env refusing_net (sse_refused [])"
  have a: "truthy (tokenUrl demo_oauth2)" "truthy (clientSecret demo_oauth2)"
    by (simp_all add: demo_oauth2_def truthy_def)
  have b: "net ?E (io_log vault_state) (basic_request ''r0'' demo_oauth2) = status_response 401 ''invalid_client''"
    by (simp add: demo_env_def refusing_net_def basic_request_def)
  have c: "client_auth_failure \<lparr>http_status = 401, www_authenticate = None, body_text = ''invalid_client'', json = NotJson\<rparr>"
    by (simp add: client_auth_failure_def)
  have d: "fetch_failed (net ?E (io_log vault_state @ [Fetch (basic_request ''r0'' demo_oauth2)])
             (body_secret_request ''r0'' demo_oauth2))"
    by (simp add: demo_env_def refusing_net_def body_secret_request_def fetch_failed_def status_response_def ok_def)
  have t: "oauth2Tokens vault_state ''s1'' = Some expired_token"
      "\<not> still_valid ?E vault_state expired_token"
      "tok_refresh_token expired_token = Some ''r0''"
    by (simp_all add: demo_simps round_double_def round_magnitude_def)
  from refresh_retries_exactly_once [OF a b [unfolded status_response_def] c] d t
  show ?thesis
    by (simp add: vault_state_def initial_state_def)
qed

subsection \<open>Discovery\<close>

text \<open>
  C7. When the probe of the resource URL answers with status 200, \<open>discoverOAuthConfiguration\<close>
  returns \<open>null\<close> and the probe is the only call it has issued: no fetch of Protected Resource
  Metadata, Authorization Server Metadata or OpenID configuration follows. This holds for
  \<open>OAuthHandler\<close> and for \<open>McpManager\<close>. (The probe takes place only when \<open>serverUrl\<close> is
  a URL; otherwise \<open>new URL\<close> throws before it.)
\<close>

theorem probe_200_stops_discovery:
  assumes "new_URL e serverUrl = Some u"
    and "net e (io_log s) (Get serverUrl) = Resp probe" and "http_status probe = 200"
  shows "discoverOAuthConfiguration e serverUrl s = (Inr None, s\<lparr>io_log := io_log s @ [Fetch (Get serverUrl)]\<rparr>)
       \<and> Mm_discoverOAuthConfiguration e serverUrl s = (Inr None, s\<lparr>io_log := io_log s @ [Fetch (Get serverUrl)]\<rparr>)"
  using assms
  by (simp add: discoverOAuthConfiguration_def Mm_discoverOAuthConfiguration_def discover_with_def
        fetch_def ok_def)

theorem probe_200_stops_discovery_witness:
  "discoverOAuthConfiguration (demo_env open_net (sse_refused [])) demo_url initial_state
     = (Inr None, initial_state\<lparr>io_log := [Fetch (Get demo_url)]\<rparr>)
   \<and> Mm_discoverOAuthConfiguration (demo_env open_net (sse_refused [])) demo_url initial_state
     = (Inr None, initial_state\<lparr>io_log := [Fetch (Get demo_url)]\<rparr>)"
proof -
  let ?E = "demo_env open_net (sse_refused [])"
  have u: "new_URL ?E demo_url = Some \<lparr>origin = demo_url, pathname = ''/''\<rparr>"
    by (simp add: demo_env_def demo_url_def)
  have p: "net ?E (io_log initial_state) (Get demo_url)
             = Resp \<lparr>http_status = 200, www_authenticate = None, body_text = [], json = NotJson\<rparr>"
    by (simp add: demo_env_def open_net_def status_response_def)
  from probe_200_stops_discovery [OF u p] show ?thesis
    by (simp add: initial_state_def)
qed















subsection \<open>Connection registry\<close>

lemmas connect_simps = connect_def parsed_config_def connect_body_def discovery_phase_def
  registration_phase_def prepare_headers_def connect_transport_def createTransport_def
  createStatelessHTTPTransport_def establishConnection_def client_connect_def
  registerConnectionState_def getConnectionStatus_def isSSEConnectionError_def
  isAuthenticationError_def isAuthError_def needsDiscovery_def discoverOAuthConfiguration_def
  discover_with_def discover_metadata_def candidateUrls_def write_back_def

lemmas env_simps = demo_env_def demo_server_def demo_parse_def demo_config_text_def demo_url_def
  open_net_def bare_401_net_def status_response_def sse_refused_def always_refused_def
  initial_state_def fetch_def ok_def Error_def truthy_def Let_def

text \<open>
  C8. \<open>callTool\<close> on a server without connection record, or with a record whose status is not
  \<open>connected\<close>, rejects with the error that the server is not connected and leaves the state
  as it was, the list of calls included: no call is issued. Whenever \<open>callTool\<close> does issue a
  call, it is one \<open>client.callTool\<close> on the client of a record in status \<open>connected\<close>. The same
  holds for \<open>McpManager.callTool\<close> and for the wrapper of the coordinator, which reject an
  empty server id earlier, with the error that a server id is required.
\<close>

theorem callTool_requires_connected:
  "(connections s serverId' = None \<or> (\<exists>c. connections s serverId' = Some c \<and> status c \<noteq> connected) \<longrightarrow>
      callTool e toolName args serverId' s
        = (Inl (Error (''Server '' @ serverId' @ '' is not connected or client is missing.'')), s)
      \<and> (\<exists>err. coordinator_callTool e toolName args serverId' s = (Inl err, s))
      \<and> (\<exists>err. Mm_callTool e toolName args (Some serverId') s = (Inl err, s))
      \<and> (serverId' \<noteq> [] \<longrightarrow>
            Mm_callTool e toolName args (Some serverId') s
              = (Inl (Error (''Server '' @ serverId' @ '' is not connected.'')), s)
            \<and> coordinator_callTool e toolName args serverId' s
              = (Inl (Error (''Server '' @ serverId' @ '' is not connected or client is missing.'')), s)))
   \<and> (io_log (snd (callTool e toolName args serverId' s)) \<noteq> io_log s \<longrightarrow>
        (\<exists>c cl. connections s serverId' = Some c \<and> status c = connected \<and> client c = Some cl
           \<and> io_log (snd (callTool e toolName args serverId' s)) = io_log s @ [ClientCallTool cl toolName args]))
   \<and> (io_log (snd (Mm_callTool e toolName args (Some serverId') s)) \<noteq> io_log s \<longrightarrow>
        (\<exists>c cl. connections s serverId' = Some c \<and> status c = connected \<and> client c = Some cl
           \<and> io_log (snd (Mm_callTool e toolName args (Some serverId') s)) = io_log s @ [ClientCallTool cl toolName args]))"
  by (auto simp: callTool_def coordinator_callTool_def Mm_callTool_def client_callTool_def truthy_def
        split: option.splits sum.splits prod.splits if_splits)

theorem callTool_requires_connected_witness:
  "callTool (demo_env open_net (sse_refused [])) ''echo'' ''{}'' ''s1'' initial_state
     = (Inl (Error ''Server s1 is not connected or client is missing.''), initial_state)
   \<and> callTool (demo_env open_net (sse_refused [])) ''echo'' ''{}'' ''s1'' (session_state auth_required)
     = (Inl (Error ''Server s1 is not connected or client is missing.''), session_state auth_required)
   \<and> Mm_callTool (demo_env open_net (sse_refused [])) ''echo'' ''{}'' (Some ''s1'') (session_state error)
     = (Inl (Error ''Server s1 is not connected.''), session_state error)
   \<and> io_log (snd (callTool (demo_env open_net (sse_refused [])) ''echo'' ''{}'' ''s1'' (session_state connected)))
     = [ClientCallTool (Client 0) ''echo'' ''{}'']"
proof -
  let ?E = "demo_env open_net (sse_refused [])"
  have a: "connections initial_state ''s1'' = None"
    by (simp add: initial_state_def)
  have b: "connections (session_state st) ''s1'' = Some (demo_connection st)" "status (demo_connection st) = st" for st
    by (simp_all add: session_state_def demo_connection_def)
  have c: "io_log (snd (callTool ?E ''echo'' ''{}'' ''s1'' (session_state connected))) \<noteq> io_log (session_state connected)"
    by (simp add: callTool_def client_callTool_def session_state_def demo_connection_def demo_env_def)
  have l: "io_log (session_state connected) = []"
    by (simp add: session_state_def vault_state_def initial_state_def)
  from callTool_requires_connected [of initial_state "''s1''" ?E "''echo''" "''{}''"] a
  have 1: "callTool ?E ''echo'' ''{}'' ''s1'' initial_state
     = (Inl (Error ''Server s1 is not connected or client is missing.''), initial_state)"
    by simp
  from callTool_requires_connected [of "session_state auth_required" "''s1''" ?E "''echo''" "''{}''"] b
  have 2: "callTool ?E ''echo'' ''{}'' ''s1'' (session_state auth_required)
     = (Inl (Error ''Server s1 is not connected or client is missing.''), session_state auth_required)"
    by simp
  from callTool_requires_connected [of "session_state error" "''s1''" ?E "''echo''" "''{}''"] b
  have 3: "Mm_callTool ?E ''echo'' ''{}'' (Some ''s1'') (session_state error)
     = (Inl (Error ''Server s1 is not connected.''), session_state error)"
    by simp
  from callTool_requires_connected [of "session_state connected" "''s1''" ?E "''echo''" "''{}''"] b c l
  have 4: "io_log (snd (callTool ?E ''echo'' ''{}'' ''s1'' (session_state connected)))
     = [ClientCallTool (Client 0) ''echo'' ''{}'']"
    by (simp add: demo_connection_def)
  from 1 2 3 4 show ?thesis by simp
qed

lemma closeConnection_unknown:
  "connections s i = None \<Longrightarrow> closeConnection e i s = s"
  by (simp add: closeConnection_def fun_upd_idem)

lemma closeConnection_props:
  "connections (closeConnection e i s) = (connections s)(i := None)
   \<and> oauth2Tokens (closeConnection e i s) = oauth2Tokens s
   \<and> io_log (closeConnection e i s) =
       (case connections s i of
          None \<Rightarrow> io_log s
        | Some c \<Rightarrow> (case client c of None \<Rightarrow> io_log s | Some cl \<Rightarrow> io_log s @ [ClientClose cl]))"
  by (auto simp: closeConnection_def client_close_def split: option.splits prod.splits)

text \<open>
  C9. \<open>disconnect\<close> never throws. After it the server has no connection record and no token,
  so the status query gives \<open>disconnected\<close>; the records and tokens of the other servers are
  untouched; a second \<open>disconnect\<close> changes nothing. On an id without record it leaves the
  registry alone and issues no call, and it changes nothing at all when there is no token
  either. When the record has a client, that client is closed: exactly one \<open>client.close()\<close>
  is issued (an error of that call is caught). \<open>McpManager.disconnect\<close> does the same.
\<close>

theorem disconnect_idempotent:
  "(\<exists>s'. disconnect e serverId' s = (Inr (), s')
       \<and> connections s' serverId' = None \<and> oauth2Tokens s' serverId' = None
       \<and> getConnectionStatus s' serverId' = disconnected
       \<and> (\<forall>j. j \<noteq> serverId' \<longrightarrow> connections s' j = connections s j \<and> oauth2Tokens s' j = oauth2Tokens s j)
       \<and> disconnect e serverId' s' = (Inr (), s'))
   \<and> (connections s serverId' = None \<longrightarrow>
         connections (snd (disconnect e serverId' s)) = connections s
         \<and> io_log (snd (disconnect e serverId' s)) = io_log s
         \<and> (oauth2Tokens s serverId' = None \<longrightarrow> disconnect e serverId' s = (Inr (), s)))
   \<and> (\<forall>c cl. connections s serverId' = Some c \<and> client c = Some cl \<longrightarrow>
         io_log (snd (disconnect e serverId' s)) = io_log s @ [ClientClose cl])
   \<and> Mm_disconnect e serverId' s = disconnect e serverId' s"
proof -
  let ?s' = "clearOAuth2Token serverId' (closeConnection e serverId' s)"
  have c: "connections ?s' = (connections s)(serverId' := None)"
    and t: "oauth2Tokens ?s' = (oauth2Tokens s)(serverId' := None)"
    using closeConnection_props [of e serverId' s] by (simp_all add: clearOAuth2Token_def)
  have again: "clearOAuth2Token serverId' (closeConnection e serverId' ?s') = ?s'"
  proof -
    have "connections ?s' serverId' = None" using c by simp
    then have "closeConnection e serverId' ?s' = ?s'" by (rule closeConnection_unknown)
    moreover have "clearOAuth2Token serverId' ?s' = ?s'"
      by (simp add: clearOAuth2Token_def)
    ultimately show ?thesis by simp
  qed
  have unknown: "connections s serverId' = None \<Longrightarrow> oauth2Tokens s serverId' = None \<Longrightarrow> ?s' = s"
    by (simp add: closeConnection_unknown clearOAuth2Token_def fun_upd_idem)
  show ?thesis
    using c t again unknown closeConnection_props [of e serverId' s]
    by (auto simp: disconnect_def Mm_disconnect_def getConnectionStatus_def clearOAuth2Token_def
          closeConnection_unknown)
qed

theorem disconnect_idempotent_witness:
  "fst (disconnect (demo_env open_net (sse_refused [])) ''s1'' (session_state connected)) = Inr ()
   \<and> getConnectionStatus (snd (disconnect (demo_env open_net (sse_refused [])) ''s1'' (session_state connected))) ''s1''
        = disconnected
   \<and> oauth2Tokens (snd (disconnect (demo_env open_net (sse_refused [])) ''s1'' (session_state connected))) ''s1'' = None
   \<and> io_log (snd (disconnect (demo_env open_net (sse_refused [])) ''s1'' (session_state connected)))
        = [ClientClose (Client 0)]
   \<and> disconnect (demo_env open_net (sse_refused [])) ''s1'' initial_state = (Inr (), initial_state)"
proof -
  let ?E = "demo_env open_net (sse_refused [])"
  have a: "connections (session_state connected) ''s1'' = Some (demo_connection connected)"
      "client (demo_connection connected) = Some (Client 0)"
      "io_log (session_state connected) = []"
    by (simp_all add: session_state_def demo_connection_def vault_state_def initial_state_def)
  have b: "connections initial_state ''s1'' = None" "oauth2Tokens initial_state ''s1'' = None"
    by (simp_all add: initial_state_def)
  from disconnect_idempotent [of ?E "''s1''" "session_state connected"] a
  have 1: "fst (disconnect ?E ''s1'' (session_state connected)) = Inr ()
     \<and> getConnectionStatus (snd (disconnect ?E ''s1'' (session_state connected))) ''s1'' = disconnected
     \<and> oauth2Tokens (snd (disconnect ?E ''s1'' (session_state connected))) ''s1'' = None
     \<and> io_log (snd (disconnect ?E ''s1'' (session_state connected))) = [ClientClose (Client 0)]"
    by auto
  from disconnect_idempotent [of ?E "''s1''" initial_state] b
  have 2: "disconnect ?E ''s1'' initial_state = (Inr (), initial_state)"
    by blast
  from 1 2 show ?thesis by simp
qed

subsection \<open>Coordinator\<close>

text \<open>
  C10 (as amended). For a server whose type is none of \<open>http\<close>, \<open>sse\<close>, \<open>http-direct\<close> and whose
  configuration is empty or is the JSON text of a value other than \<open>null\<close>, \<open>connect\<close>
  resolves and leaves the state as it was: no transport, no call, no record registered or
  changed. The status query therefore gives what it gave before the call, which is
  \<open>disconnected\<close> when the server had no record.
\<close>

theorem connect_unsupported_type:
  assumes "type server' \<noteq> ''http''" and "type server' \<noteq> ''sse''" and "type server' \<noteq> ''http-direct''"
    and "JSON_parse e (if config server' = [] then ''{}'' else config server') \<noteq> NotJson"
    and "JSON_parse e (if config server' = [] then ''{}'' else config server') \<noteq> JsonNull"
  shows "connect e server' s = (Inr (), s)
     \<and> getConnectionStatus (snd (connect e server' s)) (sid server') = getConnectionStatus s (sid server')
     \<and> (connections s (sid server') = None \<longrightarrow>
           getConnectionStatus (snd (connect e server' s)) (sid server') = disconnected)"
proof -
  from assms(4,5) obtain cfg where "parsed_config e server' = Inr cfg"
    by (cases "JSON_parse e (if config server' = [] then ''{}'' else config server')")
       (simp_all add: parsed_config_def)
  with assms(1-3) show ?thesis
    by (simp add: connect_def connect_body_def getConnectionStatus_def)
qed

theorem connect_unsupported_type_witness:
  "connect (demo_env open_net (sse_refused [])) (demo_server ''stdio'') initial_state = (Inr (), initial_state)
   \<and> getConnectionStatus (snd (connect (demo_env open_net (sse_refused [])) (demo_server ''stdio'') initial_state)) ''s1''
        = disconnected"
proof -
  let ?E = "demo_env open_net (sse_refused [])"
  have t: "type (demo_server ''stdio'') \<noteq> ''http''" "type (demo_server ''stdio'') \<noteq> ''sse''"
      "type (demo_server ''stdio'') \<noteq> ''http-direct''"
    by (simp_all add: demo_server_def)
  have p: "JSON_parse ?E (if config (demo_server ''stdio'') = [] then ''{}'' else config (demo_server ''stdio''))
             \<noteq> NotJson"
      "JSON_parse ?E (if config (demo_server ''stdio'') = [] then ''{}'' else config (demo_server ''stdio''))
             \<noteq> JsonNull"
    by (simp_all add: demo_env_def demo_server_def demo_parse_def demo_config_text_def)
  have c: "connections initial_state (sid (demo_server ''stdio'')) = None" "sid (demo_server ''stdio'') = ''s1''"
    by (simp_all add: initial_state_def demo_server_def)
  from connect_unsupported_type [OF t p, of initial_state]
  have "connect ?E (demo_server ''stdio'') initial_state = (Inr (), initial_state)"
    and "connections initial_state (sid (demo_server ''stdio'')) = None \<longrightarrow>
           getConnectionStatus (snd (connect ?E (demo_server ''stdio'') initial_state)) (sid (demo_server ''stdio''))
             = disconnected"
    by blast+
  with c show ?thesis
    by simp
qed

text \<open>
  A server whose connection over \<open>sse\<close> has failed keeps its record in status \<open>error\<close>;
  \<open>connect\<close> with the same id and the type \<open>stdio\<close> resolves, and the status query still
  gives \<open>error\<close>, not \<open>disconnected\<close>.
\<close>

theorem connect_unsupported_type_counterexample:
  "getConnectionStatus (snd (connect (demo_env open_net (always_refused ''connect ECONNREFUSED''))
        (demo_server ''sse'') initial_state)) ''s1'' = error
   \<and> fst (connect (demo_env open_net (always_refused ''connect ECONNREFUSED'')) (demo_server ''stdio'')
        (snd (connect (demo_env open_net (always_refused ''connect ECONNREFUSED''))
           (demo_server ''sse'') initial_state))) = Inr ()
   \<and> getConnectionStatus (snd (connect (demo_env open_net (always_refused ''connect ECONNREFUSED''))
        (demo_server ''stdio'')
        (snd (connect (demo_env open_net (always_refused ''connect ECONNREFUSED''))
           (demo_server ''sse'') initial_state)))) ''s1'' = error"
  by (simp add: connect_simps env_simps)


text \<open>
  The rest of the property on the same server: an event stream that answers 404 and a
  stateless endpoint that accepts end in \<open>connected\<close>, after exactly one attempt over the
  stateless transport.
\<close>

lemma connect_404_then_stateless:
  "fst (connect (demo_env open_net (sse_refused refused_404)) (demo_server ''sse'') initial_state) = Inr ()
   \<and> getConnectionStatus (snd (connect (demo_env open_net (sse_refused refused_404)) (demo_server ''sse'')
        initial_state)) ''s1'' = connected
   \<and> fallback_attempts (snd (connect (demo_env open_net (sse_refused refused_404)) (demo_server ''sse'')
        initial_state)) = 1"
  by (simp add: connect_simps env_simps refused_404_def fallback_attempts_def is_fallback_attempt_def)

subsection \<open>State codec\<close>

lemma b64_alphabet_plain: "c \<in> set b64_alphabet \<Longrightarrow> plain c"
  by (auto simp: b64_alphabet_def plain_def)

lemma b64_char_plain [simp]: "plain (b64_char n)"
proof -
  have "length b64_alphabet = 64" by (simp add: b64_alphabet_def)
  then have "b64_alphabet ! (n mod 64) \<in> set b64_alphabet" by (intro nth_mem) simp
  then show ?thesis by (simp add: b64_char_def b64_alphabet_plain)
qed















end
